theory Spec2Isabelle
  imports Main "HOL-Library.AList" "HOL-Library.Char_ord" "HOL-Library.List_Lexorder"
begin

section \<open>Data: JSON values, files and directories\<close>

text \<open>
  The setup script \<^verbatim>\<open>setup.py\<close> reads a training tree (\<^verbatim>\<open>TRAINING_DIR\<close>) and
  writes into the project tree (\<^verbatim>\<open>PROJECT_DIR\<close>, the directory of the script). Both are
  modelled as trees of named entries. A name is a string of bytes: the UTF-8 form of the
  Python string, in which a lone surrogate is written in three bytes like any other code
  point of its range (Python holds a byte of a file name that is not UTF-8, and the JSON
  escape of half a surrogate pair, as a lone surrogate). The byte-wise lexicographic order of
  this form is the code point order that Python's \<^verbatim>\<open>sorted\<close> uses.

  A value of type \<open>json\<close> is what \<^verbatim>\<open>json.load\<close> returns: \<open>JObj\<close> is a Python dict,
  an association list read through \<open>map_of\<close>; \<open>JFloat m e\<close> stands for the float
  \<open>m * 2 ^ e\<close>. A regular file is represented by what \<^verbatim>\<open>json.load\<close> makes of its
  bytes: \<open>Json j\<close> is a file holding a serialisation of \<open>j\<close>, \<open>Text s\<close> a file whose
  bytes \<open>s\<close> are not a JSON document, and \<open>Truncated j\<close> a file holding what
  \<^verbatim>\<open>json.dump\<close> had written of \<open>j\<close> when it raised: the text of \<open>j\<close> up to its first
  string that cannot be encoded, which is not a JSON document either.

  A regular file carries its write permission: \<open>ReadOnly\<close> when opening it for writing
  raises \<^verbatim>\<open>PermissionError\<close> (its mode has no write bit for the user who runs the script,
  who is not privileged), \<open>Writable\<close> otherwise. This is the part of a file's mode that
  the script can meet; \<^verbatim>\<open>shutil.copy2\<close> copies it with the content.

  A directory is the list of its entries in the order the file system lists them; it is
  read through \<open>map_of\<close>, and listed through \<open>AList.clearjunk\<close>, so each name occurs
  once in a listing whatever the list holds. Read permissions, the permissions of
  directories, symbolic links and time stamps are not modelled, and the two trees do not
  overlap.
\<close>

type_synonym name = string
type_synonym path = "name list"

datatype json =
    JNull
  | JBool bool
  | JInt int
  | JFloat int int
  | JStr string
  | JArr "json list"
  | JObj "(string \<times> json) list"

datatype content = Text string | Json json | Truncated json

datatype perm = Writable | ReadOnly

datatype node = File perm content | Dir "(name \<times> node) list"

text \<open>The exceptions the script can meet. The first two are not subclasses of \<^verbatim>\<open>Exception\<close>.\<close>

datatype exn =
    KeyboardInterrupt
  | SystemExit int
  | FileNotFoundError
  | NotADirectoryError
  | IsADirectoryError
  | FileExistsError
  | JSONDecodeError
  | TypeError
  | KeyError
  | PermissionError
  | UnicodeEncodeError

subsection \<open>Reading a tree\<close>

fun lookup :: "node \<Rightarrow> path \<Rightarrow> node option" where
  "lookup n [] = Some n"
| "lookup (File m c) (x # xs) = None"
| "lookup (Dir es) (x # xs) = (case map_of es x of None \<Rightarrow> None | Some n \<Rightarrow> lookup n xs)"

text \<open>\<^verbatim>\<open>Path.exists()\<close> and \<^verbatim>\<open>Path.is_dir()\<close>: both are false, and do not raise, when a
  component of the path is missing or is a regular file.\<close>

definition exists :: "node \<Rightarrow> path \<Rightarrow> bool" where
  "exists root p = (lookup root p \<noteq> None)"

definition is_dir :: "node \<Rightarrow> path \<Rightarrow> bool" where
  "is_dir root p = (case lookup root p of Some (Dir es) \<Rightarrow> True | _ \<Rightarrow> False)"

text \<open>\<^verbatim>\<open>Path.iterdir()\<close>, on what \<open>lookup\<close> found at the path: the entries of a
  directory; it raises on a regular file and on a missing path.\<close>

definition iterdir :: "node option \<Rightarrow> exn + (name \<times> node) list" where
  "iterdir found =
     (case found of
        None \<Rightarrow> Inl FileNotFoundError
      | Some (File m c) \<Rightarrow> Inl NotADirectoryError
      | Some (Dir es) \<Rightarrow> Inr (AList.clearjunk es))"

text \<open>The pattern \<^verbatim>\<open>*.h5\<close>: the name ends with \<^verbatim>\<open>.h5\<close> (\<^verbatim>\<open>pathlib\<close> lets \<^verbatim>\<open>*\<close> match
  a leading dot and the empty string; the match is case sensitive, as on POSIX).\<close>

definition is_h5 :: "name \<Rightarrow> bool" where
  "is_h5 nm = (3 \<le> length nm \<and> drop (length nm - 3) nm = ''.h5'')"

text \<open>\<^verbatim>\<open>Path.glob("*.h5")\<close>, on what \<open>lookup\<close> found at the path: the matching entries
  of a directory, of either kind; nothing, without raising, when the path is not a
  directory.\<close>

definition glob_h5 :: "node option \<Rightarrow> (name \<times> node) list" where
  "glob_h5 found =
     (case found of
        Some (Dir es) \<Rightarrow> filter (\<lambda>e. is_h5 (fst e)) (AList.clearjunk es)
      | _ \<Rightarrow> [])"

subsection \<open>Writing a tree\<close>

text \<open>
  Opening the regular file \<open>p\<close> for writing, writing \<open>c\<close> and, when \<open>mode\<close> is given,
  setting the permission afterwards. A file that exists must be writable and keeps its
  permission unless one is given; a file that does not exist is created, writable unless
  a permission is given, as the last entry of its directory's listing.
\<close>

fun store_file :: "path \<Rightarrow> perm option \<Rightarrow> content \<Rightarrow> node \<Rightarrow> exn + node" where
  "store_file [] mode c (File m old) =
     (if m = ReadOnly then Inl PermissionError
      else Inr (File (case mode of None \<Rightarrow> m | Some m' \<Rightarrow> m') c))"
| "store_file [] mode c (Dir es) = Inl IsADirectoryError"
| "store_file (x # xs) mode c (File m old) = Inl NotADirectoryError"
| "store_file (x # xs) mode c (Dir es) =
     (case map_of es x of
        None \<Rightarrow>
          if xs = [] then
            Inr (Dir (AList.update x (File (case mode of None \<Rightarrow> Writable | Some m' \<Rightarrow> m') c) es))
          else Inl FileNotFoundError
      | Some n \<Rightarrow>
          (case store_file xs mode c n of
             Inl e \<Rightarrow> Inl e
           | Inr n' \<Rightarrow> Inr (Dir (AList.update x n' es))))"

text \<open>\<^verbatim>\<open>open(p, 'w')\<close> followed by a write: creates or overwrites the regular file \<open>p\<close>.\<close>

definition write_file :: "path \<Rightarrow> content \<Rightarrow> node \<Rightarrow> exn + node" where
  "write_file p c root = store_file p None c root"

text \<open>\<^verbatim>\<open>Path.mkdir(exist_ok=True)\<close>: the parent must exist.\<close>

fun mkdir :: "path \<Rightarrow> node \<Rightarrow> exn + node" where
  "mkdir [] (File m old) = Inl FileExistsError"
| "mkdir [] (Dir es) = Inr (Dir es)"
| "mkdir (x # xs) (File m old) = Inl NotADirectoryError"
| "mkdir (x # xs) (Dir es) =
     (case map_of es x of
        None \<Rightarrow> if xs = [] then Inr (Dir (AList.update x (Dir []) es)) else Inl FileNotFoundError
      | Some n \<Rightarrow>
          (case mkdir xs n of
             Inl e \<Rightarrow> Inl e
           | Inr n' \<Rightarrow> Inr (Dir (AList.update x n' es))))"

text \<open>\<^verbatim>\<open>Path.mkdir(parents=True, exist_ok=True)\<close>: missing ancestors are created.\<close>

fun fresh_dirs :: "path \<Rightarrow> node" where
  "fresh_dirs [] = Dir []"
| "fresh_dirs (x # xs) = Dir [(x, fresh_dirs xs)]"

fun mkdir_parents :: "path \<Rightarrow> node \<Rightarrow> exn + node" where
  "mkdir_parents [] (File m old) = Inl FileExistsError"
| "mkdir_parents [] (Dir es) = Inr (Dir es)"
| "mkdir_parents (x # xs) (File m old) = Inl NotADirectoryError"
| "mkdir_parents (x # xs) (Dir es) =
     (case map_of es x of
        None \<Rightarrow> Inr (Dir (AList.update x (fresh_dirs xs) es))
      | Some n \<Rightarrow>
          (case mkdir_parents xs n of
             Inl e \<Rightarrow> Inl e
           | Inr n' \<Rightarrow> Inr (Dir (AList.update x n' es))))"

text \<open>
  \<^verbatim>\<open>shutil.copy2(src, dst)\<close>, with \<open>src\<close> given by its node and its base name. When
  \<open>dst\<close> is a directory the file goes into it under the source's base name. Then
  \<^verbatim>\<open>copyfile\<close> opens the source (a directory cannot be opened) and opens the destination
  for writing, which raises \<^verbatim>\<open>PermissionError\<close> on a read-only file that is already
  there; after the content, \<^verbatim>\<open>copystat\<close> gives the destination the mode of the source.
\<close>

definition copy2 :: "node \<Rightarrow> name \<Rightarrow> path \<Rightarrow> node \<Rightarrow> exn + node" where
  "copy2 src base dst root =
     (case src of
        Dir es \<Rightarrow> Inl IsADirectoryError
      | File m c \<Rightarrow> store_file (if is_dir root dst then dst @ [base] else dst) (Some m) c root)"

subsection \<open>Python operations on loaded JSON values\<close>

text \<open>\<^verbatim>\<open>open(p, 'r')\<close> followed by \<^verbatim>\<open>json.load\<close>, on the node at \<open>p\<close>.\<close>

definition json_load :: "node \<Rightarrow> exn + json" where
  "json_load n =
     (case n of
        Dir es \<Rightarrow> Inl IsADirectoryError
      | File m (Text s) \<Rightarrow> Inl JSONDecodeError
      | File m (Truncated j) \<Rightarrow> Inl JSONDecodeError
      | File m (Json j) \<Rightarrow> Inr j)"

primrec is_substring :: "string \<Rightarrow> string \<Rightarrow> bool" where
  "is_substring k [] = (k = [])"
| "is_substring k (c # cs) = (take (length k) (c # cs) = k \<or> is_substring k cs)"

text \<open>\<^verbatim>\<open>k in data\<close>: a key of a dict, an element of a list, a substring of a string; a
  number, a boolean and \<^verbatim>\<open>None\<close> are not iterable.\<close>

definition py_in :: "string \<Rightarrow> json \<Rightarrow> exn + bool" where
  "py_in k data =
     (case data of
        JObj kvs \<Rightarrow> Inr (map_of kvs k \<noteq> None)
      | JArr xs \<Rightarrow> Inr (JStr k \<in> set xs)
      | JStr s \<Rightarrow> Inr (is_substring k s)
      | _ \<Rightarrow> Inl TypeError)"

text \<open>\<^verbatim>\<open>data[k]\<close> for a string \<open>k\<close>: only a dict can be indexed by a string.\<close>

definition py_getitem :: "json \<Rightarrow> string \<Rightarrow> exn + json" where
  "py_getitem data k =
     (case data of
        JObj kvs \<Rightarrow> (case map_of kvs k of None \<Rightarrow> Inl KeyError | Some v \<Rightarrow> Inr v)
      | _ \<Rightarrow> Inl TypeError)"

text \<open>The truth value of a value, as \<^verbatim>\<open>if classes:\<close> and \<^verbatim>\<open>if not classes:\<close> take it.\<close>

definition py_truthy :: "json \<Rightarrow> bool" where
  "py_truthy v =
     (case v of
        JNull \<Rightarrow> False
      | JBool b \<Rightarrow> b
      | JInt i \<Rightarrow> i \<noteq> 0
      | JFloat m e \<Rightarrow> m \<noteq> 0
      | JStr s \<Rightarrow> s \<noteq> []
      | JArr xs \<Rightarrow> xs \<noteq> []
      | JObj kvs \<Rightarrow> kvs \<noteq> [])"

text \<open>\<^verbatim>\<open>len(v)\<close> (of a string: its bytes here, its code points in Python; the number is
  only printed).\<close>

definition py_len :: "json \<Rightarrow> exn + nat" where
  "py_len v =
     (case v of
        JStr s \<Rightarrow> Inr (length s)
      | JArr xs \<Rightarrow> Inr (length xs)
      | JObj kvs \<Rightarrow> Inr (length (AList.clearjunk kvs))
      | _ \<Rightarrow> Inl TypeError)"

text \<open>\<^verbatim>\<open>v[:5]\<close>: a dict cannot be sliced (\<^verbatim>\<open>TypeError\<close>; \<^verbatim>\<open>KeyError\<close> from Python 3.12
  on, an \<^verbatim>\<open>Exception\<close> all the same).\<close>

definition py_slice5 :: "json \<Rightarrow> exn + json list" where
  "py_slice5 v =
     (case v of
        JStr s \<Rightarrow> Inr (map (\<lambda>c. JStr [c]) (take 5 s))
      | JArr xs \<Rightarrow> Inr (take 5 xs)
      | _ \<Rightarrow> Inl TypeError)"

subsection \<open>Encoding a value as UTF-8\<close>

text \<open>
  A file opened with \<^verbatim>\<open>encoding='utf-8'\<close> encodes what is written to it with the strict
  error handler: a string with a lone surrogate raises \<^verbatim>\<open>UnicodeEncodeError\<close>. On the
  byte form of a string this is the test that the bytes are well-formed UTF-8 (the table
  of the Unicode standard: no surrogate, no overlong form, nothing above U+10FFFF).
\<close>

definition continuation :: "char \<Rightarrow> bool" where
  "continuation c = (128 \<le> (of_char c :: nat) \<and> (of_char c :: nat) \<le> 191)"

text \<open>The number of continuation bytes that the lead byte \<open>b\<close> announces; 4 for a byte
  that cannot lead.\<close>

definition followers :: "nat \<Rightarrow> nat" where
  "followers b =
     (if b < 128 then 0
      else if 194 \<le> b \<and> b \<le> 223 then 1
      else if 224 \<le> b \<and> b \<le> 239 then 2
      else if 240 \<le> b \<and> b \<le> 244 then 3
      else 4)"

text \<open>The lead bytes that restrict the byte after them: \<^verbatim>\<open>E0\<close> and \<^verbatim>\<open>F0\<close> (no overlong
  form), \<^verbatim>\<open>ED\<close> (no surrogate) and \<^verbatim>\<open>F4\<close> (nothing above U+10FFFF).\<close>

definition second_byte :: "nat \<Rightarrow> nat \<Rightarrow> bool" where
  "second_byte b b1 =
     (if b = 224 then 160 \<le> b1
      else if b = 237 then b1 \<le> 159
      else if b = 240 then 144 \<le> b1
      else if b = 244 then b1 \<le> 143
      else True)"

fun utf8 :: "string \<Rightarrow> bool" where
  "utf8 [] = True"
| "utf8 (c # cs) =
     (let n = followers (of_char c) in
      n \<le> 3 \<and> n \<le> length cs \<and> list_all continuation (take n cs)
      \<and> (n = 0 \<or> second_byte (of_char c) (of_char (hd cs)))
      \<and> utf8 (drop n cs))"

text \<open>Every string of the value, the keys of its dicts included, can be encoded (a dict
  that \<^verbatim>\<open>json.load\<close> returns has each key once, so each entry of the list is one of
  the dict).\<close>

fun encodable :: "json \<Rightarrow> bool" where
  "encodable (JStr s) = utf8 s"
| "encodable (JArr xs) = list_all encodable xs"
| "encodable (JObj kvs) = list_all (\<lambda>kv. utf8 (fst kv) \<and> encodable (snd kv)) kvs"
| "encodable v = True"

section \<open>The state of a run\<close>

text \<open>
  What the script prints is kept as a list of lines: the marker of \<^verbatim>\<open>print_step\<close>,
  \<^verbatim>\<open>print_success\<close>, \<^verbatim>\<open>print_warning\<close>, \<^verbatim>\<open>print_error\<close> or a plain \<^verbatim>\<open>print\<close>, and
  the pieces of the formatted message (literal text in ASCII, accents dropped and the
  arrow written \<^verbatim>\<open>->\<close>; a number; a path under the project or under the training
  directory; a JSON value; an exception). The blank lines that the script prints around
  its banners are left out. The console is taken to accept every line.
\<close>

datatype frag = T string | N nat | Proj path | Src path | V json | X exn

datatype line =
    Step "frag list"
  | Success "frag list"
  | Warning "frag list"
  | Error "frag list"
  | Print "frag list"

text \<open>The state the script changes: the tree under \<^verbatim>\<open>PROJECT_DIR\<close> and the console.\<close>

record world =
  project :: node
  console :: "line list"

text \<open>
  What the script only reads: the tree at \<^verbatim>\<open>TRAINING_DIR\<close> (\<open>None\<close> when the path does
  not exist), \<^verbatim>\<open>sys.version_info\<close> (major, minor, micro), the packages that
  \<^verbatim>\<open>__import__\<close> finds (for the others it raises \<^verbatim>\<open>ImportError\<close>), and the user's
  interrupt: \<open>sigint = Some k\<close> when Ctrl-C arrives as step \<open>k\<close> of \<^verbatim>\<open>main\<close> is about to
  start.
\<close>

record env =
  training :: "node option"
  version_info :: "nat \<times> nat \<times> nat"
  installed :: "name list"
  sigint :: "nat option"

text \<open>A computation changes the state and either returns a value or raises; what it
  did before raising stays done.\<close>

type_synonym 'a prog = "world \<Rightarrow> (exn + 'a) \<times> world"

definition return :: "'a \<Rightarrow> 'a prog" where
  "return a = (\<lambda>w. (Inr a, w))"

definition raise :: "exn \<Rightarrow> 'a prog" where
  "raise e = (\<lambda>w. (Inl e, w))"

definition bind :: "'a prog \<Rightarrow> ('a \<Rightarrow> 'b prog) \<Rightarrow> 'b prog" where
  "bind m f = (\<lambda>w. case m w of (Inl e, w') \<Rightarrow> (Inl e, w') | (Inr a, w') \<Rightarrow> f a w')"

text \<open>The result of an operation that only reads.\<close>

definition lift :: "exn + 'a \<Rightarrow> 'a prog" where
  "lift r = (\<lambda>w. (r, w))"

text \<open>An operation on the project tree.\<close>

definition on_project :: "(node \<Rightarrow> exn + node) \<Rightarrow> unit prog" where
  "on_project f =
     (\<lambda>w. case f (project w) of
             Inl e \<Rightarrow> (Inl e, w)
           | Inr root \<Rightarrow> (Inr (), w\<lparr>project := root\<rparr>))"

definition get_project :: "node prog" where
  "get_project = (\<lambda>w. (Inr (project w), w))"

definition print :: "line \<Rightarrow> unit prog" where
  "print l = (\<lambda>w. (Inr (), w\<lparr>console := console w @ [l]\<rparr>))"

definition print_step :: "frag list \<Rightarrow> unit prog" where
  "print_step msg = print (Step msg)"

definition print_success :: "frag list \<Rightarrow> unit prog" where
  "print_success msg = print (Success msg)"

definition print_warning :: "frag list \<Rightarrow> unit prog" where
  "print_warning msg = print (Warning msg)"

definition print_error :: "frag list \<Rightarrow> unit prog" where
  "print_error msg = print (Error msg)"

fun print_all :: "line list \<Rightarrow> unit prog" where
  "print_all [] = return ()"
| "print_all (l # ls) = bind (print l) (\<lambda>_. print_all ls)"

section \<open>The script\<close>

subsection \<open>Configuration\<close>

text \<open>Paths under \<^verbatim>\<open>PROJECT_DIR\<close> are relative to the root of the project tree.\<close>

definition PROJECT_DIR :: path where
  "PROJECT_DIR = []"

definition MODELS_DIR :: path where
  "MODELS_DIR = PROJECT_DIR @ [''models'']"

definition TEMPLATES_DIR :: path where
  "TEMPLATES_DIR = PROJECT_DIR @ [''templates'']"

definition FEATURE_TYPES :: "name list" where
  "FEATURE_TYPES = [''mfcc'', ''mel'', ''concat'']"

text \<open>A path under \<^verbatim>\<open>Path(TRAINING_DIR)\<close>: nothing is found when the directory does not
  exist.\<close>

definition training_lookup :: "env \<Rightarrow> path \<Rightarrow> node option" where
  "training_lookup E p = (case training E of None \<Rightarrow> None | Some root \<Rightarrow> lookup root p)"

subsection \<open>Steps 1 and 2: the Python version and the directories\<close>

definition check_python_version :: "env \<Rightarrow> bool prog" where
  "check_python_version E =
     bind (print_step [T ''Verificando version de Python...'']) (\<lambda>_.
     case version_info E of (major, minor, micro) \<Rightarrow>
       if major = 3 \<and> minor \<ge> 8 then
         bind (print_success [T ''Python '', N major, T ''.'', N minor, T ''.'', N micro]) (\<lambda>_.
         return True)
       else
         bind (print_error [T ''Python '', N major, T ''.'', N minor,
                            T '' no es compatible. Requiere Python 3.8+'']) (\<lambda>_.
         return False))"

fun create_dirs :: "path list \<Rightarrow> unit prog" where
  "create_dirs [] = return ()"
| "create_dirs (d # dirs) =
     bind (on_project (mkdir d)) (\<lambda>_.
     bind (print_success [T ''Directorio creado: '', Proj d]) (\<lambda>_.
     create_dirs dirs))"

definition create_project_structure :: "unit prog" where
  "create_project_structure =
     bind (print_step [T ''Creando estructura de directorios...'']) (\<lambda>_.
     create_dirs [MODELS_DIR, TEMPLATES_DIR, PROJECT_DIR @ [''uploads''],
                  PROJECT_DIR @ [''results''], PROJECT_DIR @ [''static'']])"

subsection \<open>Step 3: copying the models\<close>

text \<open>The loop over \<^verbatim>\<open>source_models.glob("*.h5")\<close>; it returns \<^verbatim>\<open>copied_count\<close>.\<close>

fun copy_model_files :: "(name \<times> node) list \<Rightarrow> path \<Rightarrow> nat \<Rightarrow> nat prog" where
  "copy_model_files [] dest_models copied_count = return copied_count"
| "copy_model_files (model_file # files) dest_models copied_count =
     bind (on_project (copy2 (snd model_file) (fst model_file)
                             (dest_models @ [fst model_file]))) (\<lambda>_.
     bind (print_success [T ''  -> '', T (fst model_file)]) (\<lambda>_.
     copy_model_files files dest_models (copied_count + 1)))"

text \<open>The two copies of a metadata file, \<^verbatim>\<open>summary.json\<close> and \<^verbatim>\<open>fold_metrics.csv\<close>,
  are the same code on two names.\<close>

definition copy_metadata :: "env \<Rightarrow> path \<Rightarrow> path \<Rightarrow> name \<Rightarrow> unit prog" where
  "copy_metadata E source_dir dest_dir fname =
     (case training_lookup E (source_dir @ [fname]) of
        None \<Rightarrow> return ()
      | Some metadata_file \<Rightarrow>
          bind (on_project (copy2 metadata_file fname (dest_dir @ [fname]))) (\<lambda>_.
          print_success [T ''  -> '', T fname]))"

text \<open>The body of the loop over \<^verbatim>\<open>FEATURE_TYPES\<close>; it returns \<^verbatim>\<open>copied_count\<close>.\<close>

definition copy_feature :: "env \<Rightarrow> name \<Rightarrow> nat \<Rightarrow> nat prog" where
  "copy_feature E feature copied_count =
     (let source_dir = [feature]; dest_dir = MODELS_DIR @ [feature] in
      if training_lookup E source_dir = None then
        bind (print_warning [T ''Feature '', T feature, T '' no encontrado en '', Src source_dir]) (\<lambda>_.
        return copied_count)
      else
        bind (print_step [T ''Copiando '', T feature, T ''...'']) (\<lambda>_.
        bind (let source_models = source_dir @ [''models''] in
              if training_lookup E source_models \<noteq> None then
                (let dest_models = dest_dir @ [''models''] in
                 bind (on_project (mkdir_parents dest_models)) (\<lambda>_.
                 copy_model_files (glob_h5 (training_lookup E source_models))
                                  dest_models copied_count))
              else return copied_count) (\<lambda>copied_count.
        bind (copy_metadata E source_dir dest_dir ''summary.json'') (\<lambda>_.
        bind (copy_metadata E source_dir dest_dir ''fold_metrics.csv'') (\<lambda>_.
        return copied_count)))))"

fun copy_features :: "env \<Rightarrow> name list \<Rightarrow> nat \<Rightarrow> nat prog" where
  "copy_features E [] copied_count = return copied_count"
| "copy_features E (feature # features) copied_count =
     bind (copy_feature E feature copied_count) (\<lambda>copied_count.
     copy_features E features copied_count)"

definition copy_models :: "env \<Rightarrow> bool prog" where
  "copy_models E =
     bind (print_step [T ''Copiando modelos entrenados...'']) (\<lambda>_.
     if training_lookup E [] = None then
       bind (print_error [T ''Directorio de entrenamiento no encontrado: '', Src []]) (\<lambda>_.
       bind (print_warning [T ''Por favor, ajusta la variable TRAINING_DIR en este script'']) (\<lambda>_.
       return False))
     else
       bind (copy_features E FEATURE_TYPES 0) (\<lambda>copied_count.
       bind (print_success [T ''Total de modelos copiados: '', N copied_count]) (\<lambda>_.
       return (copied_count > 0))))"

subsection \<open>Step 4: the class labels\<close>

text \<open>The loop over \<^verbatim>\<open>FEATURE_TYPES\<close> that looks for a \<^verbatim>\<open>classes\<close> field; it returns
  \<^verbatim>\<open>classes\<close>, which is \<^verbatim>\<open>[]\<close> unless the loop reaches its \<^verbatim>\<open>break\<close>.\<close>

fun classes_from_metadata :: "env \<Rightarrow> name list \<Rightarrow> exn + json" where
  "classes_from_metadata E [] = Inr (JArr [])"
| "classes_from_metadata E (feature # features) =
     (case training_lookup E [feature, ''summary.json''] of
        None \<Rightarrow> classes_from_metadata E features
      | Some meta_path \<Rightarrow>
          (case json_load meta_path of
             Inl e \<Rightarrow> Inl e
           | Inr data \<Rightarrow>
               (case py_in ''classes'' data of
                  Inl e \<Rightarrow> Inl e
                | Inr False \<Rightarrow> classes_from_metadata E features
                | Inr True \<Rightarrow> py_getitem data ''classes'')))"

definition is_Dir :: "node \<Rightarrow> bool" where
  "is_Dir n = (case n of Dir es \<Rightarrow> True | File m c \<Rightarrow> False)"

text \<open>\<^verbatim>\<open>[d.name for d in entries if d.is_dir()]\<close>.\<close>

definition subdir_names :: "(name \<times> node) list \<Rightarrow> name list" where
  "subdir_names entries = map fst (filter (\<lambda>d. is_Dir (snd d)) entries)"

definition extract_classes_from_training :: "env \<Rightarrow> json prog" where
  "extract_classes_from_training E =
     bind (print_step [T ''Extrayendo clases desde datos de entrenamiento...'']) (\<lambda>_.
     let test_web_dir = [''test_web''] in
     if training_lookup E test_web_dir \<noteq> None then
       bind (lift (iterdir (training_lookup E test_web_dir))) (\<lambda>entries.
       let classes = sort (subdir_names entries) in
       bind (print_success [T ''Clases encontradas en test_web: '', N (length classes)]) (\<lambda>_.
       return (JArr (map JStr classes))))
     else
       bind (lift (classes_from_metadata E FEATURE_TYPES)) (\<lambda>classes.
       bind (if py_truthy classes then
               bind (lift (py_len classes)) (\<lambda>n.
               print_success [T ''Clases encontradas en metadata: '', N n])
             else return ()) (\<lambda>_.
       return classes)))"

definition placeholder_classes :: json where
  "placeholder_classes = JArr [JStr ''clase_ejemplo_1'', JStr ''clase_ejemplo_2'', JStr ''clase_ejemplo_3'']"

text \<open>
  \<^verbatim>\<open>with open(p, 'w', encoding='utf-8') as f: json.dump(v, f, indent=2,
  ensure_ascii=False)\<close>: the file is opened, which creates or empties it; the text of \<open>v\<close>
  is written string by string, not escaped, and the first string that cannot be encoded
  raises \<^verbatim>\<open>UnicodeEncodeError\<close>; the file is closed in either case, and keeps what was
  written.
\<close>

definition json_dump :: "path \<Rightarrow> json \<Rightarrow> unit prog" where
  "json_dump p v =
     bind (on_project (write_file p (if encodable v then Json v else Truncated v))) (\<lambda>_.
     if encodable v then return () else raise UnicodeEncodeError)"

text \<open>The lines of \<^verbatim>\<open>enumerate(classes[:5], 1)\<close>.\<close>

fun class_lines :: "nat \<Rightarrow> json list \<Rightarrow> line list" where
  "class_lines i [] = []"
| "class_lines i (cls # rest) = Print [T ''  '', N i, T ''. '', V cls] # class_lines (i + 1) rest"

definition create_classes_file :: "env \<Rightarrow> bool prog" where
  "create_classes_file E =
     bind (print_step [T ''Creando archivo de clases...'']) (\<lambda>_.
     bind (extract_classes_from_training E) (\<lambda>classes.
     bind (if \<not> py_truthy classes then
             bind (print_warning [T ''No se pudieron extraer clases automaticamente'']) (\<lambda>_.
             bind (print_warning [T ''Por favor, edita manualmente models/classes.json'']) (\<lambda>_.
             return placeholder_classes))
           else return classes) (\<lambda>classes.
     let classes_file = MODELS_DIR @ [''classes.json''] in
     bind (json_dump classes_file classes) (\<lambda>_.
     bind (print_success [T ''Archivo creado: '', Proj classes_file]) (\<lambda>_.
     bind (lift (py_len classes)) (\<lambda>n.
     bind (print_success [T ''Clases totales: '', N n]) (\<lambda>_.
     bind (lift (py_slice5 classes)) (\<lambda>first5.
     bind (print_all (class_lines 1 first5)) (\<lambda>_.
     bind (if n > 5 then print (Print [T ''  ... y '', N (n - 5), T '' mas'']) else return ()) (\<lambda>_.
     return True))))))))))"

subsection \<open>Step 5: verifying the models\<close>

text \<open>The loop over \<^verbatim>\<open>FEATURE_TYPES\<close>, with \<^verbatim>\<open>all_valid\<close> as it stands; it returns
  \<^verbatim>\<open>all_valid\<close>.\<close>

fun verify_features :: "name list \<Rightarrow> bool \<Rightarrow> bool prog" where
  "verify_features [] all_valid = return all_valid"
| "verify_features (feature # features) all_valid =
     (let models_dir = MODELS_DIR @ [feature, ''models''] in
      bind get_project (\<lambda>root.
      if \<not> exists root models_dir then
        bind (print_warning [T ''Carpeta de modelos no existe: '', Proj models_dir]) (\<lambda>_.
        verify_features features False)
      else
        let model_files = glob_h5 (lookup root models_dir); expected_folds = 5 in
        if length model_files \<ge> expected_folds then
          bind (print_success [T feature, T '': '', N (length model_files),
                               T '' modelos encontrados'']) (\<lambda>_.
          verify_features features all_valid)
        else
          bind (print_warning [T feature, T '': Solo '', N (length model_files), T ''/'',
                               N expected_folds, T '' modelos'']) (\<lambda>_.
          verify_features features False)))"

definition verify_models :: "bool prog" where
  "verify_models =
     bind (print_step [T ''Verificando modelos...'']) (\<lambda>_.
     verify_features FEATURE_TYPES True)"

subsection \<open>Steps 6 to 9: requirements, readme, dependencies, summary\<close>

text \<open>The loop over \<^verbatim>\<open>required\<close>; it returns \<^verbatim>\<open>missing\<close>.\<close>

fun check_packages :: "env \<Rightarrow> name list \<Rightarrow> name list \<Rightarrow> name list prog" where
  "check_packages E [] missing = return missing"
| "check_packages E (package # packages) missing =
     (if package \<in> set (installed E) then
        bind (print_success [T package]) (\<lambda>_.
        check_packages E packages missing)
      else
        bind (print_error [T package, T '' - NO INSTALADO'']) (\<lambda>_.
        check_packages E packages (missing @ [package])))"

definition check_dependencies :: "env \<Rightarrow> bool prog" where
  "check_dependencies E =
     bind (print_step [T ''Verificando dependencias Python...'']) (\<lambda>_.
     bind (check_packages E [''flask'', ''tensorflow'', ''librosa'', ''numpy'', ''pandas''] []) (\<lambda>missing.
     if missing \<noteq> [] then
       bind (print_warning [T ''Para instalar dependencias faltantes:'']) (\<lambda>_.
       bind (print (Print (T ''  pip install'' # map (\<lambda>p. T ('' '' @ p)) missing))) (\<lambda>_.
       return False))
     else return True))"

definition unlines :: "string list \<Rightarrow> string" where
  "unlines ls = concat (map (\<lambda>l. l @ [CHR 0x0A]) ls)"

definition requirements :: string where
  "requirements = unlines
     [''# Backend'', ''flask==3.0.0'', ''flask-cors==4.0.0'', ''werkzeug==3.0.1'', [],
      ''# Audio processing'', ''librosa==0.10.1'', ''soundfile==0.12.1'', [],
      ''# Deep Learning'', ''tensorflow==2.15.0'', [], ''# Data processing'',
      ''numpy==1.24.3'', ''pandas==2.1.4'', [], ''# Utils'', ''python-dateutil==2.8.2'',
      [], ''# Production server'', ''gunicorn==21.2.0'', ''waitress==2.1.2'']"

definition create_requirements :: "bool prog" where
  "create_requirements =
     bind (print_step [T ''Creando requirements.txt...'']) (\<lambda>_.
     let req_file = PROJECT_DIR @ [''requirements.txt''] in
     bind (on_project (write_file req_file (Text requirements))) (\<lambda>_.
     bind (print_success [T ''Archivo creado: '', Proj req_file]) (\<lambda>_.
     bind (print_warning [T ''Instalar con: pip install -r requirements.txt'']) (\<lambda>_.
     return True))))"

text \<open>The text of the readme, its accented letters written without the accent (the
  file is opened with the encoding of the locale, taken to have these letters).\<close>

definition readme :: string where
  "readme = unlines
     [''# Clasificador de Audio CNN - K-Fold Ensemble'', [],
      ''Sistema de clasificacion de audio usando CNN con ensemble de 5 k-folds.'', [],
      ''## Inicio Rapido'', [], ''1. Instalar dependencias:'', ''```bash'',
      ''pip install -r requirements.txt'', ''```'', [], ''2. Ejecutar servidor:'',
      ''```bash'', ''python app.py'', ''```'', [], ''3. Acceder a: http://localhost:8000'',
      [], ''## Estructura del Proyecto'', [], ''- `app.py` - Backend Flask'',
      ''- `models/` - Modelos entrenados (mfcc, mel, concat)'',
      ''- `templates/` - Frontend HTML'', ''- `uploads/` - Archivos temporales'',
      ''- `results/` - Historial de predicciones'', [], ''## API Endpoints'', [],
      ''- `GET /api/info` - Informacion del sistema'',
      ''- `POST /api/predict` - Clasificar un audio'',
      ''- `POST /api/predict/batch` - Clasificar multiples audios'',
      ''- `GET /api/history` - Historial de predicciones'', [], ''## Produccion'', [],
      ''Ver archivo de configuracion para deployment en cloud.'']"

definition create_readme :: "bool prog" where
  "create_readme =
     bind (print_step [T ''Creando README.md...'']) (\<lambda>_.
     let readme_file = PROJECT_DIR @ [''README.md''] in
     bind (on_project (write_file readme_file (Text readme))) (\<lambda>_.
     bind (print_success [T ''Archivo creado: '', Proj readme_file]) (\<lambda>_.
     return True)))"

definition rule60 :: string where
  "rule60 = replicate 60 (CHR ''='')"

definition print_summary :: "unit prog" where
  "print_summary =
     print_all
       [Print [T rule60], Print [T ''SETUP COMPLETADO''], Print [T rule60],
        Print [T ''Proximos pasos:''],
        Print [T ''1. Verificar/editar archivo de clases:''],
        Print [T ''   '', Proj (MODELS_DIR @ [''classes.json''])],
        Print [T ''2. Instalar dependencias:''],
        Print [T ''   pip install -r requirements.txt''],
        Print [T ''3. Ejecutar servidor:''],
        Print [T ''   python app.py''],
        Print [T ''4. Acceder a la aplicacion:''],
        Print [T ''   http://localhost:8000''],
        Print [T rule60]]"

subsection \<open>The main function and the top level\<close>

text \<open>Ctrl-C as step \<open>k\<close> is about to start raises \<^verbatim>\<open>KeyboardInterrupt\<close> there.\<close>

definition checkpoint :: "env \<Rightarrow> nat \<Rightarrow> unit prog" where
  "checkpoint E k = (if sigint E = Some k then raise KeyboardInterrupt else return ())"

text \<open>\<^verbatim>\<open>sys.exit(code)\<close> raises \<^verbatim>\<open>SystemExit\<close>.\<close>

definition sys_exit :: "int \<Rightarrow> 'a prog" where
  "sys_exit code = raise (SystemExit code)"

definition main :: "env \<Rightarrow> unit prog" where
  "main E =
     bind (print_all [Print [T rule60], Print [T ''SETUP AUTOMATICO - CLASIFICADOR DE AUDIO''],
                      Print [T rule60]]) (\<lambda>_.
     bind (checkpoint E 1) (\<lambda>_.
     bind (check_python_version E) (\<lambda>ok.
     bind (if \<not> ok then sys_exit 1 else return ()) (\<lambda>_.
     bind (checkpoint E 2) (\<lambda>_.
     bind create_project_structure (\<lambda>_.
     bind (checkpoint E 3) (\<lambda>_.
     bind (copy_models E) (\<lambda>copied.
     bind (if \<not> copied then
             print_warning [T ''Algunos modelos no se copiaron. Verifica la ruta TRAINING_DIR'']
           else return ()) (\<lambda>_.
     bind (checkpoint E 4) (\<lambda>_.
     bind (create_classes_file E) (\<lambda>_.
     bind (checkpoint E 5) (\<lambda>_.
     bind verify_models (\<lambda>_.
     bind (checkpoint E 6) (\<lambda>_.
     bind create_requirements (\<lambda>_.
     bind (checkpoint E 7) (\<lambda>_.
     bind create_readme (\<lambda>_.
     bind (checkpoint E 8) (\<lambda>_.
     bind (check_dependencies E) (\<lambda>_.
     bind (checkpoint E 9) (\<lambda>_.
     print_summary))))))))))))))))))))"

text \<open>
  The guard \<^verbatim>\<open>if __name__ == "__main__"\<close>: it gives the exit code of the process and the
  final state. \<^verbatim>\<open>SystemExit\<close> is no \<^verbatim>\<open>Exception\<close>: neither handler catches it, and
  the interpreter exits with its code. A run that ends normally exits with code 0.
\<close>

definition script :: "env \<Rightarrow> world \<Rightarrow> int \<times> world" where
  "script E w =
     (case main E w of
        (Inr u, w') \<Rightarrow> (0, w')
      | (Inl KeyboardInterrupt, w') \<Rightarrow>
          (0, w'\<lparr>console := console w' @ [Print [T ''Setup interrumpido por el usuario'']]\<rparr>)
      | (Inl (SystemExit code), w') \<Rightarrow> (code, w')
      | (Inl e, w') \<Rightarrow>
          (1, w'\<lparr>console := console w' @
                 [Error [T ''Error inesperado: '', X e], Print [T ''Traceback'']]\<rparr>))"

text \<open>The rest of \<^verbatim>\<open>main\<close> once step 3 is done: steps 4 to 9.\<close>

definition main_from_step_4 :: "env \<Rightarrow> unit prog" where
  "main_from_step_4 E =
     bind (checkpoint E 4) (\<lambda>_.
     bind (create_classes_file E) (\<lambda>_.
     bind (checkpoint E 5) (\<lambda>_.
     bind verify_models (\<lambda>_.
     bind (checkpoint E 6) (\<lambda>_.
     bind create_requirements (\<lambda>_.
     bind (checkpoint E 7) (\<lambda>_.
     bind create_readme (\<lambda>_.
     bind (checkpoint E 8) (\<lambda>_.
     bind (check_dependencies E) (\<lambda>_.
     bind (checkpoint E 9) (\<lambda>_.
     print_summary)))))))))))"

section \<open>Conditions on the training tree for the label resolver\<close>

text \<open>The category has no \<^verbatim>\<open>summary.json\<close>, or one that parses and has no \<^verbatim>\<open>classes\<close>
  field: the loop over the categories goes on to the next one.\<close>

definition without_classes :: "env \<Rightarrow> name \<Rightarrow> bool" where
  "without_classes E category =
     (case training_lookup E [category, ''summary.json''] of
        None \<Rightarrow> True
      | Some meta_path \<Rightarrow>
          (case json_load meta_path of
             Inl e \<Rightarrow> False
           | Inr data \<Rightarrow> py_in ''classes'' data = Inr False))"

text \<open>What the extraction returns, or raises, is a function of the training tree; it only
  adds lines to the console.\<close>

definition extracted :: "env \<Rightarrow> exn + json" where
  "extracted E =
     (case training_lookup E [''test_web''] of
        Some (Dir es) \<Rightarrow> Inr (JArr (map JStr (sort (subdir_names (AList.clearjunk es)))))
      | Some (File m c) \<Rightarrow> Inl NotADirectoryError
      | None \<Rightarrow>
          (case classes_from_metadata E FEATURE_TYPES of
             Inl e \<Rightarrow> Inl e
           | Inr v \<Rightarrow> if py_truthy v then (case py_len v of Inl e \<Rightarrow> Inl e | Inr n \<Rightarrow> Inr v)
                      else Inr v))"

text \<open>
  A value that the resolver can hand on once it has it: \<^verbatim>\<open>len\<close> and the slice
  \<^verbatim>\<open>[:5]\<close> are applied to a list or a string, and any value that counts as false is
  replaced by the placeholder before that.
\<close>

definition usable_label :: "json \<Rightarrow> bool" where
  "usable_label v =
     (case v of
        JArr xs \<Rightarrow> True
      | JStr s \<Rightarrow> True
      | JNull \<Rightarrow> True
      | JBool b \<Rightarrow> \<not> b
      | JInt i \<Rightarrow> i = 0
      | JFloat m e \<Rightarrow> m = 0
      | JObj kvs \<Rightarrow> kvs = [])"

text \<open>
  The metadata files that the loop over the categories opens can be read: each
  \<^verbatim>\<open>summary.json\<close> up to the first one that is a JSON object with a \<^verbatim>\<open>classes\<close> member
  is a regular file holding a JSON object, or a list or a string in which \<^verbatim>\<open>classes\<close>
  does not occur, and the member found is a usable label. Nothing is asked of the
  categories after that one.
\<close>

fun metadata_readable :: "env \<Rightarrow> name list \<Rightarrow> bool" where
  "metadata_readable E [] = True"
| "metadata_readable E (feature # features) =
     (case training_lookup E [feature, ''summary.json''] of
        None \<Rightarrow> metadata_readable E features
      | Some (Dir es) \<Rightarrow> False
      | Some (File m (Text s)) \<Rightarrow> False
      | Some (File m (Truncated j)) \<Rightarrow> False
      | Some (File m (Json (JObj kvs))) \<Rightarrow>
          (case map_of kvs ''classes'' of
             None \<Rightarrow> metadata_readable E features
           | Some v \<Rightarrow> usable_label v)
      | Some (File m (Json (JArr xs))) \<Rightarrow>
          (if JStr ''classes'' \<in> set xs then False else metadata_readable E features)
      | Some (File m (Json (JStr s))) \<Rightarrow>
          (if is_substring ''classes'' s then False else metadata_readable E features)
      | Some (File m (Json v)) \<Rightarrow> False)"

text \<open>The \<^verbatim>\<open>classes\<close> member of the first \<^verbatim>\<open>summary.json\<close> that has one; the empty list
  when there is none.\<close>

fun metadata_classes :: "env \<Rightarrow> name list \<Rightarrow> json" where
  "metadata_classes E [] = JArr []"
| "metadata_classes E (feature # features) =
     (case training_lookup E [feature, ''summary.json''] of
        Some (File m (Json (JObj kvs))) \<Rightarrow>
          (case map_of kvs ''classes'' of
             None \<Rightarrow> metadata_classes E features
           | Some v \<Rightarrow> v)
      | _ \<Rightarrow> metadata_classes E features)"

text \<open>
  The labels can be resolved: \<^verbatim>\<open>test_web\<close> is a directory, whatever the metadata holds,
  or \<^verbatim>\<open>test_web\<close> is absent and the metadata can be read.
\<close>

definition labels_resolvable :: "env \<Rightarrow> bool" where
  "labels_resolvable E =
     (case training_lookup E [''test_web''] of
        None \<Rightarrow> metadata_readable E FEATURE_TYPES
      | Some (Dir es) \<Rightarrow> True
      | Some (File m c) \<Rightarrow> False)"

text \<open>The labels that are then written: the sorted names of the subdirectories of
  \<^verbatim>\<open>test_web\<close>, or the \<^verbatim>\<open>classes\<close> member of the metadata; the placeholder in place of
  a value that counts as false.\<close>

definition resolved_label :: "env \<Rightarrow> json" where
  "resolved_label E =
     (let found =
            (case training_lookup E [''test_web''] of
               Some (Dir es) \<Rightarrow> JArr (map JStr (sort (subdir_names (AList.clearjunk es))))
             | _ \<Rightarrow> metadata_classes E FEATURE_TYPES) in
      if py_truthy found then found else placeholder_classes)"

text \<open>
  The label file can be written: \<^verbatim>\<open>models\<close> is a directory of the project, and
  \<^verbatim>\<open>classes.json\<close> in it is neither a directory nor a read-only file.
\<close>

definition label_file_writable :: "node \<Rightarrow> bool" where
  "label_file_writable root =
     (is_dir root MODELS_DIR \<and>
      (case lookup root (MODELS_DIR @ [''classes.json'']) of
         None \<Rightarrow> True
       | Some (File m old) \<Rightarrow> m = Writable
       | Some (Dir es) \<Rightarrow> False))"

section \<open>What the specification says of the verifier\<close>

text \<open>
  The specification's words for the Model Verifier: a category is flagged invalid when
  \<^verbatim>\<open>models/<category>/models\<close> is absent, and is otherwise valid if and only if that
  directory holds at least 5 entries matching the model extension.
\<close>

definition category_valid :: "node \<Rightarrow> name \<Rightarrow> bool" where
  "category_valid root category =
     (if lookup root [''models'', category, ''models''] = None then False
      else 5 \<le> length (glob_h5 (lookup root [''models'', category, ''models''])))"

text \<open>The line that reports a category: a success line when it is valid, a warning when
  it is flagged invalid.\<close>

definition verdict_line :: "node \<Rightarrow> name \<Rightarrow> line" where
  "verdict_line root category =
     (let models_dir = [''models'', category, ''models''];
          n = length (glob_h5 (lookup root models_dir)) in
      if lookup root models_dir = None then
        Warning [T ''Carpeta de modelos no existe: '', Proj models_dir]
      else if category_valid root category then
        Success [T category, T '': '', N n, T '' modelos encontrados'']
      else Warning [T category, T '': Solo '', N n, T ''/'', N 5, T '' modelos''])"

definition is_Warning :: "line \<Rightarrow> bool" where
  "is_Warning l = (case l of Warning msg \<Rightarrow> True | _ \<Rightarrow> False)"

section \<open>Predicates for running the provisioner again\<close>

text \<open>The file with permission \<open>m\<close>, content \<open>c\<close> and base name \<open>base\<close> is where
  \<^verbatim>\<open>shutil.copy2\<close> to \<open>dst\<close> puts it: in the directory \<open>dst\<close>, or at \<open>dst\<close> itself.\<close>

definition settled :: "node \<Rightarrow> perm \<Rightarrow> content \<Rightarrow> name \<Rightarrow> path \<Rightarrow> bool" where
  "settled root m c base dst =
     (is_dir root dst \<and> lookup root (dst @ [base]) = Some (File m c)
      \<or> lookup root dst = Some (File m c))"

text \<open>From \<open>root\<close> to \<open>root'\<close> every directory stays a directory, and every regular file at
  a path outside \<open>W\<close> stays as it is.\<close>

definition frame :: "path set \<Rightarrow> node \<Rightarrow> node \<Rightarrow> bool" where
  "frame W root root' =
     ((\<forall>p. is_dir root p \<longrightarrow> is_dir root' p)
      \<and> (\<forall>p m c. p \<notin> W \<longrightarrow> lookup root p = Some (File m c)
                   \<longrightarrow> lookup root' p = Some (File m c)))"

text \<open>
  What a second run of \<open>m\<close> does from the state \<open>v\<close>, after a first run that returned
  \<open>a\<close> and printed \<open>out\<close>. Here \<open>s\<close> says that no file that \<open>m\<close> copies is read-only:
  then the second run returns \<open>a\<close> again, prints \<open>out\<close> again and changes nothing. When
  a file that \<open>m\<close> copies is read-only the second run raises \<^verbatim>\<open>PermissionError\<close>, and
  leaves the tree as it is.
\<close>

definition returns_again :: "bool \<Rightarrow> 'a prog \<Rightarrow> 'a \<Rightarrow> line list \<Rightarrow> world \<Rightarrow> bool" where
  "returns_again s m a out v =
     (if s then m v = (Inr a, v\<lparr>console := console v @ out\<rparr>)
      else \<exists>out'. m v = (Inl PermissionError, v\<lparr>console := console v @ out'\<rparr>))"

text \<open>
  The same after a first run that raised \<open>e\<close>: the second run raises \<open>e\<close> again, prints
  \<open>out\<close> again and changes nothing; when a file that \<open>m\<close> copies is read-only it raises
  \<open>e\<close> or \<^verbatim>\<open>PermissionError\<close>, and leaves the tree as it is.
\<close>

definition raises_again :: "bool \<Rightarrow> 'a prog \<Rightarrow> exn \<Rightarrow> line list \<Rightarrow> world \<Rightarrow> bool" where
  "raises_again s m e out v =
     (if s then m v = (Inl e, v\<lparr>console := console v @ out\<rparr>)
      else \<exists>e' out'. m v = (Inl e', v\<lparr>console := console v @ out'\<rparr>)
                     \<and> (e' = e \<or> e' = PermissionError))"

text \<open>
  A computation \<open>m\<close> can be run again: \<open>P\<close> is a property of the project tree that only
  depends on its directories and on its files at the paths of \<open>W\<close>; a run of \<open>m\<close> writes
  regular files at paths of \<open>W\<close> only; a run that returns establishes \<open>P\<close>, and on any
  tree with \<open>P\<close> the computation does what a second run does; so does, on the tree it
  left, a computation that raised.
\<close>

definition rerun :: "bool \<Rightarrow> 'a prog \<Rightarrow> (node \<Rightarrow> bool) \<Rightarrow> path set \<Rightarrow> bool" where
  "rerun s m P W =
     ((\<forall>U r r'. frame U r r' \<longrightarrow> U \<inter> W = {} \<longrightarrow> P r \<longrightarrow> P r')
      \<and> (\<forall>w a w'. m w = (Inr a, w') \<longrightarrow>
            (\<exists>out. console w' = console w @ out
                  \<and> P (project w')
                  \<and> frame W (project w) (project w')
                  \<and> (\<forall>v. P (project v) \<longrightarrow> returns_again s m a out v)))
      \<and> (\<forall>w e w'. m w = (Inl e, w') \<longrightarrow>
            (\<exists>out. console w' = console w @ out
                  \<and> frame W (project w) (project w')
                  \<and> (\<forall>v. project v = project w' \<longrightarrow> raises_again s m e out v))))"

text \<open>
  No regular file that the provisioner copies is read-only: the entries of each
  category's \<^verbatim>\<open>models\<close> directory that match \<^verbatim>\<open>*.h5\<close>, its \<^verbatim>\<open>summary.json\<close> and its
  \<^verbatim>\<open>fold_metrics.csv\<close>.
\<close>

definition read_only :: "node \<Rightarrow> bool" where
  "read_only n = (case n of File m c \<Rightarrow> m = ReadOnly | Dir es \<Rightarrow> False)"

definition copied_files :: "env \<Rightarrow> name \<Rightarrow> node list" where
  "copied_files E feature =
     map snd (glob_h5 (training_lookup E [feature, ''models'']))
     @ (case training_lookup E [feature, ''summary.json''] of None \<Rightarrow> [] | Some n \<Rightarrow> [n])
     @ (case training_lookup E [feature, ''fold_metrics.csv''] of None \<Rightarrow> [] | Some n \<Rightarrow> [n])"

definition sources_writable :: "env \<Rightarrow> bool" where
  "sources_writable E =
     list_all (\<lambda>feature. list_all (\<lambda>n. \<not> read_only n) (copied_files E feature)) FEATURE_TYPES"

section \<open>Example inputs\<close>

text \<open>A host with Python 3.11.2, two of the five packages installed and no interrupt,
  reading the training tree \<open>t\<close>.\<close>

definition host :: "node option \<Rightarrow> env" where
  "host t = \<lparr>training = t, version_info = (3, 11, 2),
             installed = [''numpy'', ''pandas''], sigint = None\<rparr>"

text \<open>A project directory that holds nothing yet, and the one that
  \<^verbatim>\<open>create_project_structure\<close> makes of it.\<close>

definition empty_project :: world where
  "empty_project = \<lparr>project = Dir [], console = []\<rparr>"

definition scaffold :: node where
  "scaffold = Dir [(''models'', Dir []), (''templates'', Dir []), (''uploads'', Dir []),
                   (''results'', Dir []), (''static'', Dir [])]"

text \<open>A training tree whose category \<^verbatim>\<open>mfcc\<close> has a \<^verbatim>\<open>summary.json\<close> and no
  \<^verbatim>\<open>models\<close> directory.\<close>

definition summary_ab :: node where
  "summary_ab = File Writable (Json (JObj [(''classes'', JArr [JStr ''b'', JStr ''a''])]))"

definition training_without_models :: node where
  "training_without_models = Dir [(''mfcc'', Dir [(''summary.json'', summary_ab)])]"

definition scaffold_world :: world where
  "scaffold_world = \<lparr>project = scaffold, console = []\<rparr>"


definition training_with_empty_test_web :: node where
  "training_with_empty_test_web =
     Dir [(''test_web'', Dir [(''notes.txt'', File Writable (Text ''x''))]),
          (''mfcc'', Dir [(''summary.json'', summary_ab)])]"

definition training_without_labels :: node where
  "training_without_labels =
     Dir [(''mfcc'', Dir [(''summary.json'', File Writable (Json (JObj [(''epochs'', JInt 10)])))])]"

definition scaffold_with_placeholder :: node where
  "scaffold_with_placeholder =
     Dir [(''models'', Dir [(''classes.json'', File Writable (Json placeholder_classes))]),
          (''templates'', Dir []), (''uploads'', Dir []), (''results'', Dir []),
          (''static'', Dir [])]"

definition five_models :: node where
  "five_models = Dir [(''fold_1.h5'', File Writable (Text ''m1'')), (''fold_2.h5'', File Writable (Text ''m2'')),
                      (''fold_3.h5'', File Writable (Text ''m3'')), (''fold_4.h5'', File Writable (Text ''m4'')),
                      (''fold_5.h5'', File Writable (Text ''m5'')), (''history.csv'', File Writable (Text ''h''))]"

definition four_models :: node where
  "four_models = Dir [(''fold_1.h5'', File Writable (Text ''m1'')), (''fold_2.h5'', File Writable (Text ''m2'')),
                      (''fold_3.h5'', File Writable (Text ''m3'')), (''fold_4.h5'', File Writable (Text ''m4'')),
                      (''history.csv'', File Writable (Text ''h''))]"

definition provisioned_world :: world where
  "provisioned_world =
     \<lparr>project = Dir [(''models'', Dir [(''mfcc'', Dir [(''models'', five_models)]),
                                      (''mel'', Dir [(''models'', four_models)])])],
      console = []\<rparr>"

definition finished_project :: node where
  "finished_project =
     Dir [(''models'', Dir [(''classes.json'', File Writable (Json placeholder_classes))]),
          (''templates'', Dir []), (''uploads'', Dir []), (''results'', Dir []),
          (''static'', Dir []), (''requirements.txt'', File Writable (Text requirements)),
          (''README.md'', File Writable (Text readme))]"

definition interrupted_host :: env where
  "interrupted_host = (host None)\<lparr>sigint := Some 5\<rparr>"

definition old_python_host :: env where
  "old_python_host = (host None)\<lparr>version_info := (2, 7, 18)\<rparr>"

text \<open>Training trees without \<^verbatim>\<open>test_web\<close>: one whose first \<^verbatim>\<open>summary.json\<close> is not JSON,
  one whose first \<^verbatim>\<open>classes\<close> field is the empty list, and one whose first category has no
  metadata while the two others have a \<^verbatim>\<open>classes\<close> field.\<close>

definition training_unparsable :: node where
  "training_unparsable =
     Dir [(''mfcc'', Dir [(''summary.json'', File Writable (Text ''accuracy: 0.93''))]),
          (''mel'', Dir [(''summary.json'', summary_ab)])]"

definition training_empty_classes :: node where
  "training_empty_classes =
     Dir [(''mfcc'', Dir [(''summary.json'', File Writable (Json (JObj [(''classes'', JArr [])])))]),
          (''mel'', Dir [(''summary.json'', summary_ab)])]"

definition training_metadata_only :: node where
  "training_metadata_only =
     Dir [(''mfcc'', Dir []),
          (''mel'', Dir [(''summary.json'',
             File Writable (Json (JObj [(''folds'', JInt 5),
                               (''classes'', JArr [JStr ''b'', JStr ''a'', JStr ''b''])])))]),
          (''concat'', Dir [(''summary.json'',
             File Writable (Json (JObj [(''classes'', JArr [JStr ''z''])])))])]"

text \<open>A training tree with five models and both metadata files for \<^verbatim>\<open>mfcc\<close>, and four
  models and no metadata for \<^verbatim>\<open>mel\<close>.\<close>

definition training_two_categories :: node where
  "training_two_categories =
     Dir [(''mfcc'', Dir [(''models'', five_models), (''summary.json'', summary_ab),
                          (''fold_metrics.csv'', File Writable (Text ''fold,accuracy''))]),
          (''mel'', Dir [(''models'', four_models)])]"


text \<open>A training tree whose one model file is read-only.\<close>

definition training_read_only :: node where
  "training_read_only =
     Dir [(''mfcc'', Dir [(''models'', Dir [(''fold_1.h5'', File ReadOnly (Text ''m1''))])])]"

text \<open>A \<^verbatim>\<open>test_web\<close> directory beside metadata that is not JSON, and one with a
  subdirectory whose name is the single byte \<^verbatim>\<open>0xE9\<close>, held by Python as the lone
  surrogate U+DCE9 (bytes ED B3 A9 in the form used here).\<close>

definition training_test_web_unparsable :: node where
  "training_test_web_unparsable =
     Dir [(''test_web'', Dir [(''zeta'', Dir []), (''alpha'', Dir [])]),
          (''mfcc'', Dir [(''summary.json'', File Writable (Text ''accuracy: 0.93''))])]"

definition surrogate_name :: name where
  "surrogate_name = [CHR 0xED, CHR 0xB3, CHR 0xA9]"

definition training_surrogate :: node where
  "training_surrogate = Dir [(''test_web'', Dir [(surrogate_name, Dir [])])]"
section \<open>Evaluation and basic facts\<close>

lemma bind_apply:
  "bind m f w = (case m w of (Inl e, w') \<Rightarrow> (Inl e, w') | (Inr a, w') \<Rightarrow> f a w')"
  by (simp add: bind_def)

text \<open>Used as a congruence rule, this keeps the simplifier out of the rest of the program
  until the first computation has returned.\<close>

lemma bind_nocong: "bind m f = bind m f"
  by (rule refl)

lemma bind_Inr: "m w = (Inr a, w') \<Longrightarrow> bind m f w = f a w'"
  by (simp add: bind_def)

lemma bind_Inl: "m w = (Inl e, w') \<Longrightarrow> bind m f w = (Inl e, w')"
  by (simp add: bind_def)

lemmas prog_simps =
  bind_apply return_def raise_def lift_def on_project_def get_project_def print_def
  print_step_def print_success_def print_warning_def print_error_def checkpoint_def
  sys_exit_def Let_def

lemmas path_defs = MODELS_DIR_def PROJECT_DIR_def TEMPLATES_DIR_def FEATURE_TYPES_def

lemmas step_defs =
  check_python_version_def create_project_structure_def copy_models_def copy_feature_def
  copy_metadata_def training_lookup_def extract_classes_from_training_def
  create_classes_file_def verify_models_def check_dependencies_def create_requirements_def
  create_readme_def print_summary_def main_def main_from_step_4_def script_def

lemmas op_defs =
  copy2_def is_dir_def exists_def glob_h5_def iterdir_def is_h5_def json_load_def py_in_def
  py_getitem_def py_truthy_def py_len_def py_slice5_def placeholder_classes_def is_Dir_def
  subdir_names_def json_dump_def followers_def second_byte_def continuation_def

lemmas example_defs =
  host_def empty_project_def scaffold_def summary_ab_def training_without_models_def

lemma create_project_structure_empty:
  "create_project_structure empty_project =
     (Inr (), \<lparr>project = scaffold, console =
        [Step [T ''Creando estructura de directorios...''],
         Success [T ''Directorio creado: '', Proj [''models'']],
         Success [T ''Directorio creado: '', Proj [''templates'']],
         Success [T ''Directorio creado: '', Proj [''uploads'']],
         Success [T ''Directorio creado: '', Proj [''results'']],
         Success [T ''Directorio creado: '', Proj [''static'']]]\<rparr>)"
  by (simp add: example_defs prog_simps step_defs path_defs
      cong: bind_nocong prod.case_cong_weak sum.case_cong_weak option.case_cong_weak)

subsection \<open>The file system operations\<close>

lemma map_of_update: "map_of (AList.update k v al) k' = (if k' = k then Some v else map_of al k')"
  by (simp add: update_conv')

lemma lookup_File: "lookup (File m c) q = (if q = [] then Some (File m c) else None)"
  by (cases q) simp_all

lemma write_file_simps [simp]:
  "write_file [] c (File m old) = (if m = ReadOnly then Inl PermissionError else Inr (File m c))"
  "write_file [] c (Dir es) = Inl IsADirectoryError"
  "write_file (x # xs) c (File m old) = Inl NotADirectoryError"
  "write_file (x # xs) c (Dir es) =
     (case map_of es x of
        None \<Rightarrow> if xs = [] then Inr (Dir (AList.update x (File Writable c) es))
                else Inl FileNotFoundError
      | Some n \<Rightarrow>
          (case write_file xs c n of
             Inl e \<Rightarrow> Inl e
           | Inr n' \<Rightarrow> Inr (Dir (AList.update x n' es))))"
  by (simp_all add: write_file_def split: option.splits)

lemma not_ReadOnly: "(m \<noteq> ReadOnly) = (m = Writable)"
  by (cases m) simp_all

lemma store_file_lookup:
  "store_file p mode c s = Inr s' \<Longrightarrow>
   lookup s' p = Some (File (case mode of None \<Rightarrow> Writable | Some m \<Rightarrow> m) c)"
proof (induction p mode c s arbitrary: s' rule: store_file.induct)
  case (1 mode c m old)
  then show ?case
    by (cases m) (auto split: option.splits if_splits)
qed (auto simp: map_of_update split: option.splits if_splits sum.splits)

lemma write_file_lookup: "write_file p c s = Inr s' \<Longrightarrow> lookup s' p = Some (File Writable c)"
  unfolding write_file_def by (drule store_file_lookup) simp

lemma store_file_noop:
  "lookup s p = Some (File Writable c) \<Longrightarrow> store_file p (Some Writable) c s = Inr s"
  by (induction p "Some Writable" c s rule: store_file.induct)
     (auto simp: update_triv split: option.splits)

lemma store_file_read_only:
  "lookup s p = Some (File ReadOnly d) \<Longrightarrow> store_file p mode c s = Inl PermissionError"
  by (induction p mode c s rule: store_file.induct) (auto split: option.splits)

lemma mkdir_parents_noop: "is_dir s p \<Longrightarrow> mkdir_parents p s = Inr s"
  by (induction p s rule: mkdir_parents.induct)
     (auto simp: is_dir_def update_triv split: option.splits)

lemma is_dir_fresh_dirs: "is_dir (fresh_dirs p) p"
  by (induction p) (auto simp: is_dir_def)

lemma mkdir_parents_is_dir: "mkdir_parents p s = Inr s' \<Longrightarrow> is_dir s' p"
proof (induction p s arbitrary: s' rule: mkdir_parents.induct)
  case (4 x xs es)
  show ?case
  proof (cases "map_of es x")
    case None
    with 4 show ?thesis using is_dir_fresh_dirs[of xs]
      by (auto simp: is_dir_def map_of_update)
  next
    case (Some n)
    with 4 obtain n' where n': "mkdir_parents xs n = Inr n'" and s': "s' = Dir (AList.update x n' es)"
      by (auto split: sum.splits)
    from 4(1)[OF Some n'] have "is_dir n' xs" .
    with s' show ?thesis by (simp add: is_dir_def map_of_update)
  qed
qed (auto simp: is_dir_def)

lemma store_file_keeps_dir: "store_file p mode c s = Inr s' \<Longrightarrow> is_dir s q \<Longrightarrow> is_dir s' q"
proof (induction p mode c s arbitrary: s' q rule: store_file.induct)
  case (4 x xs mode c es)
  show ?case
  proof (cases q)
    case Nil
    with 4 show ?thesis by (auto simp: is_dir_def split: option.splits sum.splits if_splits)
  next
    case (Cons y ys)
    with 4 show ?thesis
      by (fastforce simp: is_dir_def map_of_update split: option.splits sum.splits if_splits)
  qed
qed (auto simp: is_dir_def lookup_File split: if_splits)

lemma mkdir_parents_keeps_dir: "mkdir_parents p s = Inr s' \<Longrightarrow> is_dir s q \<Longrightarrow> is_dir s' q"
proof (induction p s arbitrary: s' q rule: mkdir_parents.induct)
  case (4 x xs es)
  show ?case
  proof (cases q)
    case Nil
    with 4 show ?thesis by (auto simp: is_dir_def split: option.splits sum.splits if_splits)
  next
    case (Cons y ys)
    with 4 show ?thesis
      by (fastforce simp: is_dir_def map_of_update split: option.splits sum.splits if_splits)
  qed
qed (auto simp: is_dir_def lookup_File split: if_splits)

lemma store_file_keeps_file:
  "store_file p mode c s = Inr s' \<Longrightarrow> lookup s q = Some (File m d) \<Longrightarrow> p \<noteq> q \<Longrightarrow>
   lookup s' q = Some (File m d)"
proof (induction p mode c s arbitrary: s' q rule: store_file.induct)
  case (4 x xs mode c es)
  show ?case
  proof (cases q)
    case Nil
    with 4 show ?thesis by simp
  next
    case (Cons y ys)
    with 4 show ?thesis
      by (fastforce simp: map_of_update split: option.splits sum.splits if_splits)
  qed
qed (auto simp: lookup_File split: if_splits)

lemma mkdir_parents_keeps_file:
  "mkdir_parents p s = Inr s' \<Longrightarrow> lookup s q = Some (File m d) \<Longrightarrow> lookup s' q = Some (File m d)"
proof (induction p s arbitrary: s' q rule: mkdir_parents.induct)
  case (4 x xs es)
  show ?case
  proof (cases q)
    case Nil
    with 4 show ?thesis by simp
  next
    case (Cons y ys)
    with 4 show ?thesis
      by (fastforce simp: map_of_update split: option.splits sum.splits if_splits)
  qed
qed (auto simp: lookup_File split: if_splits)

text \<open>When a file can be written: its directory is there, and what is at its path is
  neither a directory nor a read-only file.\<close>

lemma store_file_ok:
  "(\<exists>s'. store_file (ps @ [x]) mode c s = Inr s') =
     (is_dir s ps \<and>
      (case lookup s (ps @ [x]) of
         None \<Rightarrow> True
       | Some (File m old) \<Rightarrow> m = Writable
       | Some (Dir es) \<Rightarrow> False))"
proof (induction ps arbitrary: s)
  case Nil
  show ?case
  proof (cases s)
    case (File m old)
    then show ?thesis by (simp add: is_dir_def)
  next
    case (Dir es)
    show ?thesis
    proof (cases "map_of es x")
      case None
      with Dir show ?thesis by (simp add: is_dir_def)
    next
      case (Some n)
      with Dir show ?thesis
        by (cases n) (auto simp: is_dir_def not_ReadOnly)
    qed
  qed
next
  case (Cons y ps)
  show ?case
  proof (cases s)
    case (File m old)
    then show ?thesis by (simp add: is_dir_def)
  next
    case (Dir es)
    show ?thesis
    proof (cases "map_of es y")
      case None
      with Dir show ?thesis by (simp add: is_dir_def)
    next
      case (Some n)
      have "(\<exists>s'. store_file ((y # ps) @ [x]) mode c s = Inr s') =
            (\<exists>n'. store_file (ps @ [x]) mode c n = Inr n')"
        using Dir Some by (auto split: sum.splits)
      also note Cons.IH[of n]
      finally show ?thesis
        using Dir Some by (simp add: is_dir_def)
    qed
  qed
qed

subsection \<open>The label resolver and the verifier\<close>

lemmas ev_cong = bind_nocong prod.case_cong_weak sum.case_cong_weak option.case_cong_weak

lemma print_all_apply: "print_all ls w = (Inr (), w\<lparr>console := console w @ ls\<rparr>)"
  by (induction ls arbitrary: w) (simp_all add: prog_simps)

lemma extract_test_web:
  assumes "training_lookup E [''test_web''] = Some (Dir es)"
  shows "extract_classes_from_training E w =
     (Inr (JArr (map JStr (sort (subdir_names (AList.clearjunk es))))),
      w\<lparr>console := console w @
         [Step [T ''Extrayendo clases desde datos de entrenamiento...''],
          Success [T ''Clases encontradas en test_web: '',
                   N (length (subdir_names (AList.clearjunk es)))]]\<rparr>)"
  using assms
  by (simp add: extract_classes_from_training_def prog_simps iterdir_def)

lemma extract_shape:
  "\<exists>out. \<forall>w. extract_classes_from_training E w = (extracted E, w\<lparr>console := console w @ out\<rparr>)"
proof (cases "training_lookup E [''test_web'']")
  case None
  show ?thesis
  proof (cases "classes_from_metadata E FEATURE_TYPES")
    case (Inl e)
    with None show ?thesis
      by (intro exI[of _ "[Step [T ''Extrayendo clases desde datos de entrenamiento...'']]"])
         (simp add: extract_classes_from_training_def extracted_def prog_simps)
  next
    case (Inr c)
    show ?thesis
    proof (cases "py_truthy c")
      case False
      with None Inr show ?thesis
        by (intro exI[of _ "[Step [T ''Extrayendo clases desde datos de entrenamiento...'']]"])
           (simp add: extract_classes_from_training_def extracted_def prog_simps)
    next
      case True
      show ?thesis
      proof (cases "py_len c")
        case (Inl e)
        with None Inr True show ?thesis
          by (intro exI[of _ "[Step [T ''Extrayendo clases desde datos de entrenamiento...'']]"])
             (simp add: extract_classes_from_training_def extracted_def prog_simps)
      next
        case (Inr n)
        with None \<open>classes_from_metadata E FEATURE_TYPES = Inr c\<close> True show ?thesis
          by (intro exI[of _ "[Step [T ''Extrayendo clases desde datos de entrenamiento...''], Success [T ''Clases encontradas en metadata: '', N n]]"])
             (simp add: extract_classes_from_training_def extracted_def prog_simps)
      qed
    qed
  qed
next
  case (Some nd)
  show ?thesis
  proof (cases nd)
    case (File m c)
    with Some show ?thesis
      by (intro exI[of _ "[Step [T ''Extrayendo clases desde datos de entrenamiento...'']]"])
         (simp add: extract_classes_from_training_def extracted_def prog_simps iterdir_def)
  next
    case (Dir es)
    with Some extract_test_web[of E es] show ?thesis
      by (intro exI[of _ "[Step [T ''Extrayendo clases desde datos de entrenamiento...''],
          Success [T ''Clases encontradas en test_web: '',
                   N (length (subdir_names (AList.clearjunk es)))]]"])
         (simp add: extracted_def)
  qed
qed

lemma json_dump_apply:
  "json_dump p v w =
     (case write_file p (if encodable v then Json v else Truncated v) (project w) of
        Inl e \<Rightarrow> (Inl e, w)
      | Inr root' \<Rightarrow>
          (if encodable v then Inr () else Inl UnicodeEncodeError, w\<lparr>project := root'\<rparr>))"
  by (simp add: json_dump_def prog_simps split: sum.splits)

lemma json_dump_ok:
  "(json_dump p v w = (Inr (), w')) =
     (encodable v \<and> (\<exists>root'. write_file p (Json v) (project w) = Inr root'
                              \<and> w' = w\<lparr>project := root'\<rparr>))"
  by (auto simp: json_dump_apply split: sum.splits)

lemma json_dump_write:
  assumes "json_dump p v w = (Inr (), w\<lparr>project := root'\<rparr>)"
  shows "encodable v" and "write_file p (Json v) (project w) = Inr root'"
proof -
  from assms obtain r where e: "encodable v" and r: "write_file p (Json v) (project w) = Inr r"
    and w: "w\<lparr>project := root'\<rparr> = w\<lparr>project := r\<rparr>"
    by (auto simp: json_dump_ok)
  from w have "project (w\<lparr>project := root'\<rparr>) = project (w\<lparr>project := r\<rparr>)"
    by simp
  then have "root' = r" by simp
  with e r show "encodable v" and "write_file p (Json v) (project w) = Inr root'"
    by simp_all
qed

lemma create_classes_file_result:
  assumes "extract_classes_from_training E
             (w\<lparr>console := console w @ [Step [T ''Creando archivo de clases...'']]\<rparr>) = (Inr c, w1)"
    and "label = (if py_truthy c then c else placeholder_classes)"
    and "encodable label"
    and "write_file (MODELS_DIR @ [''classes.json'']) (Json label) (project w1) = Inr root'"
    and "py_len label = Inr n"
    and "py_slice5 label = Inr first5"
  shows "create_classes_file E w =
     (Inr True,
      w1\<lparr>project := root',
         console := console w1 @
           (if py_truthy c then []
            else [Warning [T ''No se pudieron extraer clases automaticamente''],
                  Warning [T ''Por favor, edita manualmente models/classes.json'']]) @
           [Success [T ''Archivo creado: '', Proj (MODELS_DIR @ [''classes.json''])],
            Success [T ''Clases totales: '', N n]] @
           class_lines 1 first5 @
           (if n > 5 then [Print [T ''  ... y '', N (n - 5), T '' mas'']] else [])\<rparr>)"
proof (cases "py_truthy c")
  case True
  with assms show ?thesis
    by (simp add: create_classes_file_def prog_simps print_all_apply json_dump_apply)
next
  case False
  with assms show ?thesis
    by (simp add: create_classes_file_def prog_simps print_all_apply json_dump_apply)
qed

lemma encodable_placeholder: "encodable placeholder_classes"
  by (simp add: placeholder_classes_def followers_def)

lemma placeholder_facts:
  "\<not> py_truthy c \<Longrightarrow> py_len (if py_truthy c then c else placeholder_classes) = Inr 3"
  "\<not> py_truthy c \<Longrightarrow> py_slice5 (if py_truthy c then c else placeholder_classes) =
     Inr [JStr ''clase_ejemplo_1'', JStr ''clase_ejemplo_2'', JStr ''clase_ejemplo_3'']"
  by (simp_all add: placeholder_classes_def py_len_def py_slice5_def)

lemma write_placeholder_scaffold:
  "write_file (MODELS_DIR @ [''classes.json'']) (Json placeholder_classes) (project scaffold_world)
     = Inr scaffold_with_placeholder"
  by (simp add: scaffold_world_def scaffold_def scaffold_with_placeholder_def path_defs)

lemma verify_features_result:
  "verify_features fs b w =
     (Inr (b \<and> list_all (category_valid (project w)) fs),
      w\<lparr>console := console w @ map (verdict_line (project w)) fs\<rparr>)"
proof (induction fs arbitrary: b w)
  case Nil
  show ?case by (simp add: prog_simps)
next
  case (Cons f fs)
  show ?case
    by (simp add: prog_simps Cons.IH category_valid_def verdict_line_def path_defs exists_def)
qed

subsection \<open>The provisioner without a source root\<close>

lemma copy_models_no_training:
  assumes "training E = None"
  shows "copy_models E w =
     (Inr False,
      w\<lparr>console := console w @
         [Step [T ''Copiando modelos entrenados...''],
          Error [T ''Directorio de entrenamiento no encontrado: '', Src []],
          Warning [T ''Por favor, ajusta la variable TRAINING_DIR en este script'']]\<rparr>)"
  using assms by (simp add: copy_models_def training_lookup_def prog_simps)

lemmas run_defs = example_defs prog_simps step_defs path_defs op_defs print_all_apply

subsection \<open>The metadata tier of the label resolver\<close>

lemma classes_from_metadata_first:
  assumes "\<forall>c\<in>set before. without_classes E c"
    and "training_lookup E [category, ''summary.json''] = Some meta_path"
    and "json_load meta_path = Inr data"
    and "py_in ''classes'' data = Inr True"
  shows "classes_from_metadata E (before @ category # later) = py_getitem data ''classes''"
  using assms
  by (induction before) (auto simp: without_classes_def split: option.splits sum.splits bool.splits)

lemma extract_metadata:
  assumes "training_lookup E [''test_web''] = None"
    and "classes_from_metadata E FEATURE_TYPES = Inr (JArr xs)"
  shows "extract_classes_from_training E w =
     (Inr (JArr xs),
      w\<lparr>console := console w @
         Step [T ''Extrayendo clases desde datos de entrenamiento...''] #
         (if xs = [] then []
          else [Success [T ''Clases encontradas en metadata: '', N (length xs)]])\<rparr>)"
  using assms
  by (simp add: extract_classes_from_training_def prog_simps py_truthy_def py_len_def)

text \<open>The loop over the metadata returns a usable label exactly when the metadata can be
  read, and what it returns is the \<^verbatim>\<open>classes\<close> member found.\<close>

lemma classes_from_metadata_value:
  "classes_from_metadata E fs = Inr v \<Longrightarrow> v = metadata_classes E fs"
proof (induction fs)
  case Nil
  then show ?case by simp
next
  case (Cons f fs)
  show ?case
  proof (cases "training_lookup E [f, ''summary.json'']")
    case None
    with Cons show ?thesis by simp
  next
    case (Some nd)
    with Cons show ?thesis
      by (auto simp: json_load_def py_in_def py_getitem_def
               split: node.splits content.splits json.splits option.splits if_splits bool.splits)
  qed
qed

lemma classes_from_metadata_readable:
  "(\<exists>v. classes_from_metadata E fs = Inr v \<and> usable_label v) = metadata_readable E fs"
proof (induction fs)
  case Nil
  show ?case by (simp add: usable_label_def)
next
  case (Cons f fs)
  show ?case
  proof (cases "training_lookup E [f, ''summary.json'']")
    case None
    with Cons show ?thesis by simp
  next
    case (Some nd)
    with Cons show ?thesis
      by (auto simp: json_load_def py_in_def py_getitem_def
               split: node.splits content.splits json.splits option.splits if_splits bool.splits)
  qed
qed

text \<open>A usable label is one that the lines after the extraction accept.\<close>

lemma usable_label_iff:
  "usable_label v =
     ((py_truthy v \<longrightarrow> (\<exists>n. py_len v = Inr n))
      \<and> (\<exists>n. py_len (if py_truthy v then v else placeholder_classes) = Inr n)
      \<and> (\<exists>l. py_slice5 (if py_truthy v then v else placeholder_classes) = Inr l))"
  by (cases v) (auto simp: usable_label_def py_truthy_def py_len_def py_slice5_def
                           placeholder_classes_def)


lemma extracted_usable: "(\<exists>c. extracted E = Inr c \<and> usable_label c) = labels_resolvable E"
proof (cases "training_lookup E [''test_web'']")
  case None
  have "(\<exists>c. extracted E = Inr c \<and> usable_label c) =
        (\<exists>v. classes_from_metadata E FEATURE_TYPES = Inr v \<and> usable_label v)"
    using None
    by (auto simp: extracted_def usable_label_iff split: sum.splits if_splits)
  with None show ?thesis
    by (simp add: classes_from_metadata_readable labels_resolvable_def)
next
  case (Some nd)
  then show ?thesis
    by (cases nd) (simp_all add: extracted_def labels_resolvable_def usable_label_def)
qed

lemma extracted_label:
  "extracted E = Inr c \<Longrightarrow> (if py_truthy c then c else placeholder_classes) = resolved_label E"
proof (cases "training_lookup E [''test_web'']")
  case None
  assume "extracted E = Inr c"
  with None have "classes_from_metadata E FEATURE_TYPES = Inr c"
    by (auto simp: extracted_def split: sum.splits if_splits)
  from classes_from_metadata_value[OF this] None show ?thesis
    by (simp add: resolved_label_def)
next
  case (Some nd)
  assume "extracted E = Inr c"
  with Some show ?thesis
    by (cases nd) (auto simp: extracted_def resolved_label_def)
qed

lemma extracted_accepted:
  assumes "extracted E = Inr c"
  shows "((\<exists>n. py_len (if py_truthy c then c else placeholder_classes) = Inr n)
          \<and> (\<exists>l. py_slice5 (if py_truthy c then c else placeholder_classes) = Inr l))
         = usable_label c"
proof -
  from assms have "py_truthy c \<longrightarrow> (\<exists>n. py_len c = Inr n)"
    by (cases "training_lookup E [''test_web'']")
       (auto simp: extracted_def py_len_def split: sum.splits if_splits node.splits)
  then show ?thesis
    by (subst usable_label_iff) blast
qed

lemma label_file_writable_iff:
  "(\<exists>root'. write_file (MODELS_DIR @ [''classes.json'']) c root = Inr root')
     = label_file_writable root"
  unfolding write_file_def label_file_writable_def by (rule store_file_ok)

subsection \<open>Running the provisioner again\<close>

lemma frame_refl: "frame W r r"
  by (simp add: frame_def)

lemma frame_trans: "frame W1 r r' \<Longrightarrow> frame W2 r' r'' \<Longrightarrow> frame (W1 \<union> W2) r r''"
  by (simp add: frame_def)

lemma frame_mono: "frame W r r' \<Longrightarrow> W \<subseteq> W' \<Longrightarrow> frame W' r r'"
  by (auto simp: frame_def)

lemma rerunI:
  assumes "\<And>U r r'. frame U r r' \<Longrightarrow> U \<inter> W = {} \<Longrightarrow> P r \<Longrightarrow> P r'"
    and "\<And>w a w'. m w = (Inr a, w') \<Longrightarrow>
            \<exists>out. console w' = console w @ out \<and> P (project w') \<and>
                  frame W (project w) (project w') \<and>
                  (\<forall>v. P (project v) \<longrightarrow> returns_again s m a out v)"
    and "\<And>w e w'. m w = (Inl e, w') \<Longrightarrow>
            \<exists>out. console w' = console w @ out \<and>
                  frame W (project w) (project w') \<and>
                  (\<forall>v. project v = project w' \<longrightarrow> raises_again s m e out v)"
  shows "rerun s m P W"
  using assms unfolding rerun_def by blast

lemma rerun_supported:
  "rerun s m P W \<Longrightarrow> frame U r r' \<Longrightarrow> U \<inter> W = {} \<Longrightarrow> P r \<Longrightarrow> P r'"
  unfolding rerun_def by blast

lemma rerun_run:
  assumes "rerun s m P W" and "m w = (Inr a, w')"
  obtains out where "console w' = console w @ out" and "P (project w')"
    and "frame W (project w) (project w')"
    and "\<And>v. P (project v) \<Longrightarrow> returns_again s m a out v"
  using assms unfolding rerun_def by blast

lemma rerun_raise:
  assumes "rerun s m P W" and "m w = (Inl e, w')"
  obtains out where "console w' = console w @ out"
    and "frame W (project w) (project w')"
    and "\<And>v. project v = project w' \<Longrightarrow> raises_again s m e out v"
  using assms unfolding rerun_def by blast

lemma rerun_return: "rerun True (return a) (\<lambda>r. True) {}"
  by (rule rerunI) (auto simp: return_def frame_refl returns_again_def raises_again_def)

lemma rerun_print: "rerun True (print l) (\<lambda>r. True) {}"
  by (rule rerunI) (auto simp: print_def frame_refl returns_again_def raises_again_def)

lemma rerun_mono:
  assumes r: "rerun s m P W" and s: "W \<subseteq> W'"
  shows "rerun s m P W'"
proof (rule rerunI)
  fix U r r'
  assume "frame U r r'" "U \<inter> W' = {}" "P r"
  with s rerun_supported[OF r, of U r r'] show "P r'"
    by blast
next
  fix w a w'
  assume "m w = (Inr a, w')"
  from rerun_run[OF r this] frame_mono[OF _ s]
  show "\<exists>out. console w' = console w @ out \<and> P (project w') \<and>
          frame W' (project w) (project w') \<and>
          (\<forall>v. P (project v) \<longrightarrow> returns_again s m a out v)"
    by metis
next
  fix w e w'
  assume "m w = (Inl e, w')"
  from rerun_raise[OF r this] frame_mono[OF _ s]
  show "\<exists>out. console w' = console w @ out \<and>
          frame W' (project w) (project w') \<and>
          (\<forall>v. project v = project w' \<longrightarrow> raises_again s m e out v)"
    by metis
qed

lemma raises_again_same:
  "m v = (Inl e, v\<lparr>console := console v @ out\<rparr>) \<Longrightarrow> raises_again s m e out v"
  by (auto simp: raises_again_def)

lemma returns_again_denied:
  "\<not> s \<Longrightarrow> m v = (Inl PermissionError, v\<lparr>console := console v @ out'\<rparr>) \<Longrightarrow>
   returns_again s m a out v"
  by (auto simp: returns_again_def)

lemma returns_again_bind:
  assumes "returns_again s1 m a out1 v"
    and "returns_again s2 (f a) b out2 (v\<lparr>console := console v @ out1\<rparr>)"
  shows "returns_again (s1 \<and> s2) (bind m f) b (out1 @ out2) v"
proof (cases s1)
  case False
  with assms(1) show ?thesis
    by (auto simp: returns_again_def bind_def)
next
  case True
  with assms(1) have m: "m v = (Inr a, v\<lparr>console := console v @ out1\<rparr>)"
    by (simp add: returns_again_def)
  show ?thesis
  proof (cases s2)
    case True
    with assms(2) m \<open>s1\<close> show ?thesis
      by (simp add: returns_again_def bind_def)
  next
    case False
    with assms(2) obtain out' where
      "f a (v\<lparr>console := console v @ out1\<rparr>) =
         (Inl PermissionError, v\<lparr>console := console v @ (out1 @ out')\<rparr>)"
      by (auto simp: returns_again_def)
    with m False show ?thesis
      unfolding returns_again_def by (simp add: bind_def) blast
  qed
qed

lemma raises_again_first:
  assumes "raises_again s1 m e out v"
  shows "raises_again (s1 \<and> s2) (bind m f) e out v"
proof (cases s1)
  case False
  with assms show ?thesis
    by (auto simp: raises_again_def bind_def)
next
  case True
  with assms have "bind m f v = (Inl e, v\<lparr>console := console v @ out\<rparr>)"
    by (simp add: raises_again_def bind_def)
  then show ?thesis
    unfolding raises_again_def by auto
qed

lemma raises_again_second:
  assumes "returns_again s1 m a out1 v"
    and "raises_again s2 (f a) e out2 (v\<lparr>console := console v @ out1\<rparr>)"
  shows "raises_again (s1 \<and> s2) (bind m f) e (out1 @ out2) v"
proof (cases s1)
  case False
  with assms(1) show ?thesis
    by (auto simp: returns_again_def raises_again_def bind_def)
next
  case True
  with assms(1) have m: "m v = (Inr a, v\<lparr>console := console v @ out1\<rparr>)"
    by (simp add: returns_again_def)
  show ?thesis
  proof (cases s2)
    case True
    with assms(2) m \<open>s1\<close> show ?thesis
      by (simp add: raises_again_def bind_def)
  next
    case False
    with assms(2) obtain e' out' where
      "f a (v\<lparr>console := console v @ out1\<rparr>) =
         (Inl e', v\<lparr>console := console v @ (out1 @ out')\<rparr>)"
      and "e' = e \<or> e' = PermissionError"
      by (auto simp: raises_again_def)
    with m False show ?thesis
      unfolding raises_again_def by (simp add: bind_def) blast
  qed
qed

lemma rerun_bind:
  assumes m: "rerun s1 m P1 W1" and f: "\<And>a. rerun s2 (f a) P2 W2" and d: "W1 \<inter> W2 = {}"
  shows "rerun (s1 \<and> s2) (bind m f) (\<lambda>r. P1 r \<and> P2 r) (W1 \<union> W2)"
proof (rule rerunI)
  fix U r r'
  assume fr: "frame U r r'" and dis: "U \<inter> (W1 \<union> W2) = {}" and P: "P1 r \<and> P2 r"
  from dis have "U \<inter> W1 = {}" and "U \<inter> W2 = {}" by auto
  with fr P rerun_supported[OF m] rerun_supported[OF f] show "P1 r' \<and> P2 r'"
    by blast
next
  fix w b w''
  assume run: "bind m f w = (Inr b, w'')"
  then obtain a w' where r1: "m w = (Inr a, w')" and r2: "f a w' = (Inr b, w'')"
    by (auto simp: bind_def split: prod.splits sum.splits)
  from rerun_run[OF m r1] obtain out1 where o1: "console w' = console w @ out1"
    and p1: "P1 (project w')" and f1: "frame W1 (project w) (project w')"
    and n1: "\<And>v. P1 (project v) \<Longrightarrow> returns_again s1 m a out1 v"
    by blast
  from rerun_run[OF f r2] obtain out2 where o2: "console w'' = console w' @ out2"
    and p2: "P2 (project w'')" and f2: "frame W2 (project w') (project w'')"
    and n2: "\<And>v. P2 (project v) \<Longrightarrow> returns_again s2 (f a) b out2 v"
    by blast
  from d have "W2 \<inter> W1 = {}" by auto
  from rerun_supported[OF m f2 this p1] have p1': "P1 (project w'')" .
  have noop: "returns_again (s1 \<and> s2) (bind m f) b (out1 @ out2) v"
    if "P1 (project v) \<and> P2 (project v)" for v
  proof (rule returns_again_bind)
    from that show "returns_again s1 m a out1 v"
      by (simp add: n1)
    from that show "returns_again s2 (f a) b out2 (v\<lparr>console := console v @ out1\<rparr>)"
      by (simp add: n2)
  qed
  show "\<exists>out. console w'' = console w @ out \<and> (P1 (project w'') \<and> P2 (project w'')) \<and>
          frame (W1 \<union> W2) (project w) (project w'') \<and>
          (\<forall>v. P1 (project v) \<and> P2 (project v) \<longrightarrow>
               returns_again (s1 \<and> s2) (bind m f) b out v)"
    using o1 o2 p1' p2 frame_trans[OF f1 f2] noop
    by (intro exI[of _ "out1 @ out2"]) simp
next
  fix w e w''
  assume run: "bind m f w = (Inl e, w'')"
  show "\<exists>out. console w'' = console w @ out \<and>
          frame (W1 \<union> W2) (project w) (project w'') \<and>
          (\<forall>v. project v = project w'' \<longrightarrow> raises_again (s1 \<and> s2) (bind m f) e out v)"
  proof (cases "fst (m w)")
    case (Inl e')
    with run have r1: "m w = (Inl e, w'')"
      by (cases "m w") (auto simp: bind_def)
    from rerun_raise[OF m r1] obtain out where o: "console w'' = console w @ out"
      and fr: "frame W1 (project w) (project w'')"
      and n: "\<And>v. project v = project w'' \<Longrightarrow> raises_again s1 m e out v"
      by blast
    have "raises_again (s1 \<and> s2) (bind m f) e out v" if "project v = project w''" for v
      using n[OF that] by (rule raises_again_first)
    with o frame_mono[OF fr, of "W1 \<union> W2"] show ?thesis
      by (intro exI[of _ out]) simp
  next
    case (Inr a)
    then obtain w' where r1: "m w = (Inr a, w')"
      by (cases "m w") auto
    with run have r2: "f a w' = (Inl e, w'')"
      by (simp add: bind_def)
    from rerun_run[OF m r1] obtain out1 where o1: "console w' = console w @ out1"
      and p1: "P1 (project w')" and f1: "frame W1 (project w) (project w')"
      and n1: "\<And>v. P1 (project v) \<Longrightarrow> returns_again s1 m a out1 v"
      by blast
    from rerun_raise[OF f r2] obtain out2 where o2: "console w'' = console w' @ out2"
      and f2: "frame W2 (project w') (project w'')"
      and n2: "\<And>v. project v = project w'' \<Longrightarrow> raises_again s2 (f a) e out2 v"
      by blast
    from d have "W2 \<inter> W1 = {}" by auto
    from rerun_supported[OF m f2 this p1] have p1': "P1 (project w'')" .
    have again: "raises_again (s1 \<and> s2) (bind m f) e (out1 @ out2) v"
      if "project v = project w''" for v
    proof (rule raises_again_second)
      from that p1' show "returns_again s1 m a out1 v"
        by (simp add: n1)
      from that show "raises_again s2 (f a) e out2 (v\<lparr>console := console v @ out1\<rparr>)"
        by (simp add: n2)
    qed
    with o1 o2 frame_trans[OF f1 f2] show ?thesis
      by (intro exI[of _ "out1 @ out2"]) simp
  qed
qed

lemma settled_frame:
  "settled r m c base dst \<Longrightarrow> frame U r r' \<Longrightarrow> dst \<notin> U \<Longrightarrow> dst @ [base] \<notin> U \<Longrightarrow>
   settled r' m c base dst"
  unfolding settled_def frame_def by blast

lemma copy2_File: "copy2 nd base dst r = Inr r' \<Longrightarrow> \<exists>m c. nd = File m c"
  by (cases nd) (simp_all add: copy2_def)

lemma copy2_settled: "copy2 (File m c) base dst r = Inr r' \<Longrightarrow> settled r' m c base dst"
  by (auto simp: copy2_def settled_def split: if_splits
           dest: store_file_lookup store_file_keeps_dir)

lemma copy2_frame: "copy2 (File m c) base dst r = Inr r' \<Longrightarrow> frame {dst, dst @ [base]} r r'"
  unfolding frame_def copy2_def
  by (auto split: if_splits dest: store_file_keeps_dir store_file_keeps_file)

lemma is_dir_not_file: "is_dir r p \<Longrightarrow> lookup r p \<noteq> Some (File m c)"
  by (auto simp: is_dir_def)

lemma copy2_noop: "settled r Writable c base dst \<Longrightarrow> copy2 (File Writable c) base dst r = Inr r"
  by (auto simp: copy2_def settled_def store_file_noop dest: is_dir_not_file)

lemma copy2_read_only:
  "settled r ReadOnly c base dst \<Longrightarrow> copy2 (File ReadOnly c) base dst r = Inl PermissionError"
  by (auto simp: copy2_def settled_def store_file_read_only dest: is_dir_not_file)

lemma on_project_raise:
  assumes "on_project g w = (Inl e, w')"
  shows "\<exists>out. console w' = console w @ out \<and> frame W (project w) (project w') \<and>
          (\<forall>v. project v = project w' \<longrightarrow> raises_again s (on_project g) e out v)"
proof -
  from assms have g: "g (project w) = Inl e" and w': "w' = w"
    by (auto simp: on_project_def split: sum.splits)
  have "raises_again s (on_project g) e [] v" if "project v = project w'" for v
    using that g w' by (intro raises_again_same) (simp add: on_project_def)
  with w' show ?thesis
    by (intro exI[of _ "[]"]) (simp add: frame_refl)
qed

lemma rerun_copy2:
  "rerun (\<not> read_only nd) (on_project (copy2 nd base dst))
         (\<lambda>r. \<exists>m c. nd = File m c \<and> settled r m c base dst) {dst, dst @ [base]}"
proof (rule rerunI)
  fix U r r'
  assume "frame U r r'" "U \<inter> {dst, dst @ [base]} = {}"
    "\<exists>m c. nd = File m c \<and> settled r m c base dst"
  then show "\<exists>m c. nd = File m c \<and> settled r' m c base dst"
    by (auto intro: settled_frame)
next
  fix w a w'
  assume run: "on_project (copy2 nd base dst) w = (Inr a, w')"
  then obtain r' where cp: "copy2 nd base dst (project w) = Inr r'" and w': "w' = w\<lparr>project := r'\<rparr>"
    by (auto simp: on_project_def split: sum.splits)
  from copy2_File[OF cp] obtain m c where nd: "nd = File m c" by blast
  have "returns_again (\<not> read_only nd) (on_project (copy2 nd base dst)) a [] v"
    if "\<exists>m c. nd = File m c \<and> settled (project v) m c base dst" for v
  proof (cases m)
    case Writable
    with that nd have "copy2 nd base dst (project v) = Inr (project v)"
      by (simp add: copy2_noop)
    with nd Writable show ?thesis
      by (simp add: returns_again_def read_only_def on_project_def)
  next
    case ReadOnly
    with that nd have "copy2 nd base dst (project v) = Inl PermissionError"
      by (simp add: copy2_read_only)
    with nd ReadOnly show ?thesis
      by (intro returns_again_denied[where out' = "[]"]) (simp_all add: on_project_def read_only_def)
  qed
  with cp nd w' copy2_settled[of m c base dst "project w" r'] copy2_frame[of m c base dst "project w" r']
  show "\<exists>out. console w' = console w @ out \<and>
          (\<exists>m c. nd = File m c \<and> settled (project w') m c base dst) \<and>
          frame {dst, dst @ [base]} (project w) (project w') \<and>
          (\<forall>v. (\<exists>m c. nd = File m c \<and> settled (project v) m c base dst) \<longrightarrow>
               returns_again (\<not> read_only nd) (on_project (copy2 nd base dst)) a out v)"
    by (intro exI[of _ "[]"]) simp
next
  fix w e w'
  assume "on_project (copy2 nd base dst) w = (Inl e, w')"
  then show "\<exists>out. console w' = console w @ out \<and>
          frame {dst, dst @ [base]} (project w) (project w') \<and>
          (\<forall>v. project v = project w' \<longrightarrow>
               raises_again (\<not> read_only nd) (on_project (copy2 nd base dst)) e out v)"
    by (rule on_project_raise)
qed

lemma rerun_mkdir_parents: "rerun True (on_project (mkdir_parents p)) (\<lambda>r. is_dir r p) {}"
proof (rule rerunI)
  fix U r r'
  assume "frame U r r'" "is_dir r p"
  then show "is_dir r' p" by (simp add: frame_def)
next
  fix w a w'
  assume run: "on_project (mkdir_parents p) w = (Inr a, w')"
  then obtain r' where mk: "mkdir_parents p (project w) = Inr r'" and w': "w' = w\<lparr>project := r'\<rparr>"
    by (auto simp: on_project_def split: sum.splits)
  have fr: "frame {} (project w) r'"
    unfolding frame_def using mk
    by (auto dest: mkdir_parents_keeps_dir mkdir_parents_keeps_file)
  have "returns_again True (on_project (mkdir_parents p)) a [] v"
    if "is_dir (project v) p" for v
    using that by (simp add: returns_again_def on_project_def mkdir_parents_noop)
  with mk w' fr mkdir_parents_is_dir[OF mk]
  show "\<exists>out. console w' = console w @ out \<and> is_dir (project w') p \<and>
          frame {} (project w) (project w') \<and>
          (\<forall>v. is_dir (project v) p \<longrightarrow>
               returns_again True (on_project (mkdir_parents p)) a out v)"
    by (intro exI[of _ "[]"]) simp
next
  fix w e w'
  assume "on_project (mkdir_parents p) w = (Inl e, w')"
  then show "\<exists>out. console w' = console w @ out \<and>
          frame {} (project w) (project w') \<and>
          (\<forall>v. project v = project w' \<longrightarrow>
               raises_again True (on_project (mkdir_parents p)) e out v)"
    by (rule on_project_raise)
qed

lemma rerun_eq:
  "rerun s m P W \<Longrightarrow> (\<And>r. P r = P' r) \<Longrightarrow> W \<subseteq> W' \<Longrightarrow> s = s' \<Longrightarrow> rerun s' m P' W'"
proof -
  assume r: "rerun s m P W" and e: "\<And>r. P r = P' r" and s: "W \<subseteq> W'" and t: "s = s'"
  from e have "P = P'" by (rule ext)
  with rerun_mono[OF r s] t show ?thesis by simp
qed

lemma rerun_print_success: "rerun True (print_success msg) (\<lambda>r. True) {}"
  unfolding print_success_def by (rule rerun_print)

lemma rerun_print_step: "rerun True (print_step msg) (\<lambda>r. True) {}"
  unfolding print_step_def by (rule rerun_print)

lemma rerun_print_warning: "rerun True (print_warning msg) (\<lambda>r. True) {}"
  unfolding print_warning_def by (rule rerun_print)

lemma rerun_print_error: "rerun True (print_error msg) (\<lambda>r. True) {}"
  unfolding print_error_def by (rule rerun_print)

lemma rerun_copy_model_files:
  "distinct (map fst files) \<Longrightarrow>
   rerun (list_all (\<lambda>e. \<not> read_only (snd e)) files) (copy_model_files files D n)
         (\<lambda>r. \<forall>e\<in>set files. \<exists>m c. snd e = File m c \<and> settled r m c (fst e) (D @ [fst e]))
         (\<Union>e\<in>set files. {D @ [fst e], D @ [fst e, fst e]})"
proof (induction files arbitrary: n)
  case Nil
  have "rerun True (copy_model_files [] D n) (\<lambda>r. True) {}"
    by (simp add: rerun_return)
  then show ?case
    by (rule rerun_eq) simp_all
next
  case (Cons e files)
  let ?W1 = "{D @ [fst e], (D @ [fst e]) @ [fst e]}"
  let ?W2 = "\<Union>e\<in>set files. {D @ [fst e], D @ [fst e, fst e]}"
  let ?P2 = "\<lambda>r. \<forall>e\<in>set files. \<exists>m c. snd e = File m c \<and> settled r m c (fst e) (D @ [fst e])"
  let ?s2 = "list_all (\<lambda>e. \<not> read_only (snd e)) files"
  from Cons.prems have d: "distinct (map fst files)" and ne: "fst e \<notin> fst ` set files"
    by simp_all
  have rest: "rerun (True \<and> ?s2) (bind (print_success [T ''  -> '', T (fst e)])
                      (\<lambda>_. copy_model_files files D (n + 1)))
                (\<lambda>r. True \<and> ?P2 r) ({} \<union> ?W2)"
    by (rule rerun_bind[OF rerun_print_success Cons.IH[OF d]]) simp
  have dis: "?W1 \<inter> ({} \<union> ?W2) = {}"
    using ne by auto
  have "rerun (\<not> read_only (snd e) \<and> (True \<and> ?s2)) (copy_model_files (e # files) D n)
          (\<lambda>r. (\<exists>m c. snd e = File m c \<and> settled r m c (fst e) (D @ [fst e])) \<and> (True \<and> ?P2 r))
          (?W1 \<union> ({} \<union> ?W2))"
    unfolding copy_model_files.simps
    by (rule rerun_bind[OF rerun_copy2 rest dis])
  then show ?case
    by (rule rerun_eq) auto
qed

lemma rerun_copy_metadata:
  "rerun (case training_lookup E (s @ [fname]) of None \<Rightarrow> True | Some nd \<Rightarrow> \<not> read_only nd)
         (copy_metadata E s d fname)
         (\<lambda>r. \<forall>nd. training_lookup E (s @ [fname]) = Some nd \<longrightarrow>
                 (\<exists>m c. nd = File m c \<and> settled r m c fname (d @ [fname])))
         {d @ [fname], d @ [fname, fname]}"
proof (cases "training_lookup E (s @ [fname])")
  case None
  then have "copy_metadata E s d fname = return ()"
    by (simp add: copy_metadata_def)
  with None show ?thesis
    by (simp add: rerun_eq[OF rerun_return])
next
  case (Some nd)
  have "rerun (\<not> read_only nd \<and> True) (bind (on_project (copy2 nd fname (d @ [fname])))
                 (\<lambda>_. print_success [T ''  -> '', T fname]))
          (\<lambda>r. (\<exists>m c. nd = File m c \<and> settled r m c fname (d @ [fname])) \<and> True)
          ({d @ [fname], (d @ [fname]) @ [fname]} \<union> {})"
    by (rule rerun_bind[OF rerun_copy2 rerun_print_success]) simp
  with Some show ?thesis
    by (simp add: copy_metadata_def rerun_eq)
qed

lemma distinct_glob_h5: "distinct (map fst (glob_h5 found))"
  by (auto simp: glob_h5_def distinct_map_filter distinct_clearjunk
           split: option.splits node.splits)

lemma training_lookup_child:
  "training_lookup E [f] = None \<Longrightarrow> training_lookup E [f, x] = None"
proof (cases "training E")
  case None
  then show ?thesis by (simp add: training_lookup_def)
next
  case (Some t)
  assume "training_lookup E [f] = None"
  with Some show ?thesis
    by (cases t) (auto simp: training_lookup_def split: option.splits)
qed

lemma copied_files_writable:
  "list_all (\<lambda>n. \<not> read_only n) (copied_files E f) =
     (list_all (\<lambda>e. \<not> read_only (snd e)) (glob_h5 (training_lookup E ([f] @ [''models'']))) \<and>
      (case training_lookup E ([f] @ [''summary.json'']) of
         None \<Rightarrow> True | Some nd \<Rightarrow> \<not> read_only nd) \<and>
      (case training_lookup E ([f] @ [''fold_metrics.csv'']) of
         None \<Rightarrow> True | Some nd \<Rightarrow> \<not> read_only nd))"
  by (auto simp: copied_files_def list_all_iff split: option.splits)

lemma rerun_copy_feature:
  "\<exists>P. \<forall>n. rerun (list_all (\<lambda>n. \<not> read_only n) (copied_files E f)) (copy_feature E f n) P
                {p. take 2 p = [''models'', f]}"
proof (cases "training_lookup E [f] = None")
  case True
  then have s: "list_all (\<lambda>n. \<not> read_only n) (copied_files E f) = (True \<and> True)"
    by (simp add: copied_files_def training_lookup_child glob_h5_def)
  have "rerun (True \<and> True) (bind (print_warning [T ''Feature '', T f, T '' no encontrado en '', Src [f]])
                 (\<lambda>_. return n))
          (\<lambda>r. True \<and> True) ({} \<union> {})" for n :: nat
    by (rule rerun_bind[OF rerun_print_warning rerun_return]) simp
  then have r: "rerun (True \<and> True) (bind (print_warning [T ''Feature '', T f, T '' no encontrado en '', Src [f]])
                 (\<lambda>_. return n))
          (\<lambda>r. True \<and> True) {p. take 2 p = [''models'', f]}" for n :: nat
    by (rule rerun_mono) simp
  have "copy_feature E f n =
      bind (print_warning [T ''Feature '', T f, T '' no encontrado en '', Src [f]])
           (\<lambda>_. return n)" for n
    using True by (simp add: copy_feature_def)
  with r have "rerun (True \<and> True) (copy_feature E f n) (\<lambda>r. True \<and> True)
                 {p. take 2 p = [''models'', f]}" for n
    by simp
  then show ?thesis unfolding s by blast
next
  case False
  then have a: "(training_lookup E [f] = None) = False"
    by simp
  let ?dd = "MODELS_DIR @ [f]"
  let ?Ws = "{?dd @ [''summary.json''], ?dd @ [''summary.json'', ''summary.json'']}"
  let ?Wm = "{?dd @ [''fold_metrics.csv''], ?dd @ [''fold_metrics.csv'', ''fold_metrics.csv'']}"
  let ?Ps = "\<lambda>r. \<forall>nd. training_lookup E ([f] @ [''summary.json'']) = Some nd \<longrightarrow>
                 (\<exists>m c. nd = File m c \<and> settled r m c ''summary.json'' (?dd @ [''summary.json'']))"
  let ?Pm = "\<lambda>r. \<forall>nd. training_lookup E ([f] @ [''fold_metrics.csv'']) = Some nd \<longrightarrow>
                 (\<exists>m c. nd = File m c \<and> settled r m c ''fold_metrics.csv'' (?dd @ [''fold_metrics.csv'']))"
  let ?ss = "case training_lookup E ([f] @ [''summary.json'']) of
               None \<Rightarrow> True | Some nd \<Rightarrow> \<not> read_only nd"
  let ?sm = "case training_lookup E ([f] @ [''fold_metrics.csv'']) of
               None \<Rightarrow> True | Some nd \<Rightarrow> \<not> read_only nd"
  define tail where "tail = (\<lambda>cnt :: nat.
      bind (copy_metadata E [f] ?dd ''summary.json'') (\<lambda>_.
      bind (copy_metadata E [f] ?dd ''fold_metrics.csv'') (\<lambda>_. return cnt)))"
  have t1: "rerun (?sm \<and> True) (bind (copy_metadata E [f] ?dd ''fold_metrics.csv'') (\<lambda>_. return cnt))
              (\<lambda>r. ?Pm r \<and> True) (?Wm \<union> {})" for cnt :: nat
    by (rule rerun_bind[OF rerun_copy_metadata rerun_return]) simp
  have tail: "rerun (?ss \<and> (?sm \<and> True)) (tail cnt) (\<lambda>r. ?Ps r \<and> (?Pm r \<and> True))
                (?Ws \<union> (?Wm \<union> {}))" for cnt
    unfolding tail_def by (rule rerun_bind[OF rerun_copy_metadata t1]) simp
  show ?thesis
  proof (cases "training_lookup E ([f] @ [''models'']) \<noteq> None")
    case True
    then have a': "(training_lookup E [f, ''models''] = None) = False"
      by simp
    let ?D = "?dd @ [''models'']"
    let ?files = "glob_h5 (training_lookup E ([f] @ [''models'']))"
    let ?Wf = "\<Union>e\<in>set ?files. {?D @ [fst e], ?D @ [fst e, fst e]}"
    let ?Pf = "\<lambda>r. \<forall>e\<in>set ?files. \<exists>m c. snd e = File m c \<and> settled r m c (fst e) (?D @ [fst e])"
    let ?sf = "list_all (\<lambda>e. \<not> read_only (snd e)) ?files"
    have s: "list_all (\<lambda>n. \<not> read_only n) (copied_files E f) =
               (True \<and> ((True \<and> ?sf) \<and> (?ss \<and> (?sm \<and> True))))"
      by (simp add: copied_files_writable)
    have m: "rerun (True \<and> ?sf) (bind (on_project (mkdir_parents ?D)) (\<lambda>_. copy_model_files ?files ?D n))
               (\<lambda>r. is_dir r ?D \<and> ?Pf r) ({} \<union> ?Wf)" for n
      by (rule rerun_bind[OF rerun_mkdir_parents rerun_copy_model_files[OF distinct_glob_h5]]) simp
    have d1: "({} \<union> ?Wf) \<inter> (?Ws \<union> (?Wm \<union> {})) = {}"
      by (auto simp: MODELS_DIR_def PROJECT_DIR_def)
    have b: "rerun ((True \<and> ?sf) \<and> (?ss \<and> (?sm \<and> True)))
               (bind (bind (on_project (mkdir_parents ?D)) (\<lambda>_. copy_model_files ?files ?D n)) tail)
               (\<lambda>r. (is_dir r ?D \<and> ?Pf r) \<and> (?Ps r \<and> (?Pm r \<and> True)))
               (({} \<union> ?Wf) \<union> (?Ws \<union> (?Wm \<union> {})))" for n
      by (rule rerun_bind[OF m tail d1])
    have c: "rerun (True \<and> ((True \<and> ?sf) \<and> (?ss \<and> (?sm \<and> True))))
            (bind (print_step [T ''Copiando '', T f, T ''...''])
             (\<lambda>_. bind (bind (on_project (mkdir_parents ?D)) (\<lambda>_. copy_model_files ?files ?D n)) tail))
            (\<lambda>r. True \<and> ((is_dir r ?D \<and> ?Pf r) \<and> (?Ps r \<and> (?Pm r \<and> True))))
            ({} \<union> (({} \<union> ?Wf) \<union> (?Ws \<union> (?Wm \<union> {}))))" for n
      by (rule rerun_bind[OF rerun_print_step b]) simp
    have eq: "copy_feature E f n =
        bind (print_step [T ''Copiando '', T f, T ''...''])
             (\<lambda>_. bind (bind (on_project (mkdir_parents ?D)) (\<lambda>_. copy_model_files ?files ?D n)) tail)" for n
      by (simp add: copy_feature_def Let_def tail_def a a')
    have sub: "{} \<union> (({} \<union> ?Wf) \<union> (?Ws \<union> (?Wm \<union> {}))) \<subseteq> {p. take 2 p = [''models'', f]}"
      by (auto simp: MODELS_DIR_def PROJECT_DIR_def)
    have "rerun (True \<and> ((True \<and> ?sf) \<and> (?ss \<and> (?sm \<and> True)))) (copy_feature E f n)
            (\<lambda>r. True \<and> ((is_dir r ?D \<and> ?Pf r) \<and> (?Ps r \<and> (?Pm r \<and> True))))
            {p. take 2 p = [''models'', f]}" for n
      unfolding eq by (rule rerun_mono[OF c sub])
    then show ?thesis unfolding s by blast
  next
    case nomodels: False
    then have a': "training_lookup E [f, ''models''] = None"
      by simp
    have s: "list_all (\<lambda>n. \<not> read_only n) (copied_files E f) =
               (True \<and> (True \<and> (?ss \<and> (?sm \<and> True))))"
      using a' by (simp add: copied_files_writable glob_h5_def)
    have b: "rerun (True \<and> (?ss \<and> (?sm \<and> True))) (bind (return n) tail)
               (\<lambda>r. True \<and> (?Ps r \<and> (?Pm r \<and> True)))
               ({} \<union> (?Ws \<union> (?Wm \<union> {})))" for n
      by (rule rerun_bind[OF rerun_return tail]) simp
    have c: "rerun (True \<and> (True \<and> (?ss \<and> (?sm \<and> True))))
            (bind (print_step [T ''Copiando '', T f, T ''...''])
             (\<lambda>_. bind (return n) tail))
            (\<lambda>r. True \<and> (True \<and> (?Ps r \<and> (?Pm r \<and> True))))
            ({} \<union> ({} \<union> (?Ws \<union> (?Wm \<union> {}))))" for n
      by (rule rerun_bind[OF rerun_print_step b]) simp
    have eq: "copy_feature E f n =
        bind (print_step [T ''Copiando '', T f, T ''...'']) (\<lambda>_. bind (return n) tail)" for n
      by (simp add: copy_feature_def Let_def tail_def a a')
    have sub: "{} \<union> ({} \<union> (?Ws \<union> (?Wm \<union> {}))) \<subseteq> {p. take 2 p = [''models'', f]}"
      by (auto simp: MODELS_DIR_def PROJECT_DIR_def)
    have "rerun (True \<and> (True \<and> (?ss \<and> (?sm \<and> True)))) (copy_feature E f n)
            (\<lambda>r. True \<and> (True \<and> (?Ps r \<and> (?Pm r \<and> True))))
            {p. take 2 p = [''models'', f]}" for n
      unfolding eq by (rule rerun_mono[OF c sub])
    then show ?thesis unfolding s by blast
  qed
qed

lemma rerun_copy_features:
  "distinct fs \<Longrightarrow>
   \<exists>P. \<forall>n. rerun (list_all (\<lambda>f. list_all (\<lambda>n. \<not> read_only n) (copied_files E f)) fs)
               (copy_features E fs n) P (\<Union>f\<in>set fs. {p. take 2 p = [''models'', f]})"
proof (induction fs)
  case Nil
  have "rerun True (copy_features E [] n) (\<lambda>r. True) {}" for n
    by (simp add: rerun_return)
  then show ?case by auto
next
  case (Cons f fs)
  let ?s1 = "list_all (\<lambda>n. \<not> read_only n) (copied_files E f)"
  let ?s2 = "list_all (\<lambda>f. list_all (\<lambda>n. \<not> read_only n) (copied_files E f)) fs"
  from Cons obtain P2 where P2: "\<And>n. rerun ?s2 (copy_features E fs n) P2
      (\<Union>f\<in>set fs. {p. take 2 p = [''models'', f]})"
    by auto
  from rerun_copy_feature[of E f] obtain P1 where
    P1: "\<And>n. rerun ?s1 (copy_feature E f n) P1 {p. take 2 p = [''models'', f]}"
    by blast
  from Cons.prems have "{p. take 2 p = [''models'', f]} \<inter>
      (\<Union>f\<in>set fs. {p. take 2 p = [''models'', f]}) = {}"
    by auto
  from rerun_bind[OF P1 P2 this]
  have "rerun (?s1 \<and> ?s2) (copy_features E (f # fs) n) (\<lambda>r. P1 r \<and> P2 r)
      ({p. take 2 p = [''models'', f]} \<union> (\<Union>f\<in>set fs. {p. take 2 p = [''models'', f]}))" for n
    by simp
  then have "rerun (list_all (\<lambda>f. list_all (\<lambda>n. \<not> read_only n) (copied_files E f)) (f # fs))
      (copy_features E (f # fs) n) (\<lambda>r. P1 r \<and> P2 r)
      (\<Union>f\<in>set (f # fs). {p. take 2 p = [''models'', f]})" for n
    by simp
  then show ?case by blast
qed


lemma lookup_append:
  "lookup r (p @ q) = (case lookup r p of None \<Rightarrow> None | Some n \<Rightarrow> lookup n q)"
  by (induction r p rule: lookup.induct) (auto simp: lookup_File split: option.splits)

lemma rerun_after_features:
  "rerun (True \<and> True)
         (bind (print_success [T ''Total de modelos copiados: '', N cnt]) (\<lambda>_. return (cnt > 0)))
         (\<lambda>r. True \<and> True) ({} \<union> {})"
  by (rule rerun_bind[OF rerun_print_success rerun_return]) simp

lemma sources_writable_no_training: "training E = None \<Longrightarrow> sources_writable E"
  by (simp add: sources_writable_def copied_files_def training_lookup_def glob_h5_def
      FEATURE_TYPES_def)

lemma rerun_copy_models: "\<exists>P W. rerun (sources_writable E) (copy_models E) P W"
proof (cases "training_lookup E [] = None")
  case True
  then have s: "sources_writable E = (True \<and> (True \<and> (True \<and> True)))"
    by (simp add: sources_writable_no_training training_lookup_def split: option.splits)
  have "rerun (True \<and> True) (bind (print_warning [T ''Por favor, ajusta la variable TRAINING_DIR en este script''])
                 (\<lambda>_. return False))
          (\<lambda>r. True \<and> True) ({} \<union> {})"
    by (rule rerun_bind[OF rerun_print_warning rerun_return]) simp
  then have "rerun (True \<and> (True \<and> True)) (bind (print_error [T ''Directorio de entrenamiento no encontrado: '', Src []])
                 (\<lambda>_. bind (print_warning [T ''Por favor, ajusta la variable TRAINING_DIR en este script''])
                 (\<lambda>_. return False)))
          (\<lambda>r. True \<and> (True \<and> True)) ({} \<union> ({} \<union> {}))"
    by (rule rerun_bind[OF rerun_print_error]) simp
  then have "rerun (True \<and> (True \<and> (True \<and> True))) (bind (print_step [T ''Copiando modelos entrenados...''])
                 (\<lambda>_. bind (print_error [T ''Directorio de entrenamiento no encontrado: '', Src []])
                 (\<lambda>_. bind (print_warning [T ''Por favor, ajusta la variable TRAINING_DIR en este script''])
                 (\<lambda>_. return False))))
          (\<lambda>r. True \<and> (True \<and> (True \<and> True))) ({} \<union> ({} \<union> ({} \<union> {})))"
    by (rule rerun_bind[OF rerun_print_step]) simp
  moreover have "copy_models E = bind (print_step [T ''Copiando modelos entrenados...''])
                 (\<lambda>_. bind (print_error [T ''Directorio de entrenamiento no encontrado: '', Src []])
                 (\<lambda>_. bind (print_warning [T ''Por favor, ajusta la variable TRAINING_DIR en este script''])
                 (\<lambda>_. return False)))"
    using True by (simp add: copy_models_def)
  ultimately show ?thesis unfolding s by metis
next
  case False
  then have a: "(training_lookup E [] = None) = False"
    by simp
  have "distinct FEATURE_TYPES"
    by (simp add: FEATURE_TYPES_def)
  from rerun_copy_features[OF this, of E] obtain P where
    P: "\<And>n. rerun (sources_writable E) (copy_features E FEATURE_TYPES n) P
              (\<Union>f\<in>set FEATURE_TYPES. {p. take 2 p = [''models'', f]})"
    unfolding sources_writable_def by blast
  have s: "sources_writable E = (True \<and> (sources_writable E \<and> (True \<and> True)))"
    by simp
  have "rerun (sources_writable E \<and> (True \<and> True)) (bind (copy_features E FEATURE_TYPES 0)
                 (\<lambda>cnt. bind (print_success [T ''Total de modelos copiados: '', N cnt])
                 (\<lambda>_. return (cnt > 0))))
          (\<lambda>r. P r \<and> (True \<and> True))
          ((\<Union>f\<in>set FEATURE_TYPES. {p. take 2 p = [''models'', f]}) \<union> ({} \<union> {}))"
    by (rule rerun_bind[OF P rerun_after_features]) simp
  then have "rerun (True \<and> (sources_writable E \<and> (True \<and> True)))
                (bind (print_step [T ''Copiando modelos entrenados...''])
                 (\<lambda>_. bind (copy_features E FEATURE_TYPES 0)
                 (\<lambda>cnt. bind (print_success [T ''Total de modelos copiados: '', N cnt])
                 (\<lambda>_. return (cnt > 0)))))
          (\<lambda>r. True \<and> (P r \<and> (True \<and> True)))
          ({} \<union> ((\<Union>f\<in>set FEATURE_TYPES. {p. take 2 p = [''models'', f]}) \<union> ({} \<union> {})))"
    by (rule rerun_bind[OF rerun_print_step]) simp
  moreover have "copy_models E = bind (print_step [T ''Copiando modelos entrenados...''])
                 (\<lambda>_. bind (copy_features E FEATURE_TYPES 0)
                 (\<lambda>cnt. bind (print_success [T ''Total de modelos copiados: '', N cnt])
                 (\<lambda>_. return (cnt > 0))))"
    by (simp add: copy_models_def a)
  ultimately show ?thesis by (subst s) metis
qed

lemma copy_models_run:
  assumes "training E \<noteq> None"
    and "copy_features E FEATURE_TYPES 0
           (w\<lparr>console := console w @ [Step [T ''Copiando modelos entrenados...'']]\<rparr>) = (Inr n, w')"
  shows "copy_models E w =
           (Inr (0 < n), w'\<lparr>console := console w' @ [Success [T ''Total de modelos copiados: '', N n]]\<rparr>)"
proof -
  from assms(1) have a: "(training_lookup E [] = None) = False"
    by (auto simp: training_lookup_def)
  from assms(2) show ?thesis
    by (simp add: copy_models_def a prog_simps)
qed

section \<open>The claims\<close>

text \<open>
  C1. The claim: when a category's \<^verbatim>\<open>summary.json\<close> exists in the training tree, the
  copy to \<^verbatim>\<open>models/<category>/summary.json\<close> succeeds and the pipeline continues, whether
  or not the category has a \<^verbatim>\<open>models\<close> directory. The code creates the destination
  directory only on the path that copies model files. On a freshly created project
  structure, with a category that has a \<^verbatim>\<open>summary.json\<close> and no \<^verbatim>\<open>models\<close> directory,
  \<^verbatim>\<open>shutil.copy2\<close> raises \<^verbatim>\<open>FileNotFoundError\<close>: nothing is copied, no later step
  runs, and the process exits with code 1.
\<close>

theorem copy_models_summary_needs_models_dir:
  "copy_models (host (Some training_without_models)) \<lparr>project = scaffold, console = []\<rparr> =
     (Inl FileNotFoundError,
      \<lparr>project = scaffold,
       console = [Step [T ''Copiando modelos entrenados...''],
                  Step [T ''Copiando '', T ''mfcc'', T ''...'']]\<rparr>)
   \<and> fst (script (host (Some training_without_models)) empty_project) = 1
   \<and> project (snd (script (host (Some training_without_models)) empty_project)) = scaffold"
  by (simp add: example_defs prog_simps step_defs path_defs op_defs
      cong: bind_nocong prod.case_cong_weak sum.case_cong_weak option.case_cong_weak)

text \<open>
  C2. The claim: \<^verbatim>\<open>create_classes_file\<close> returns true for every state of the training
  tree, whatever its \<^verbatim>\<open>summary.json\<close> files hold. It fails on a \<^verbatim>\<open>summary.json\<close> that is
  not JSON: no step of the script catches the exception of \<^verbatim>\<open>json.load\<close>, which the
  caller observes. It also fails when \<^verbatim>\<open>test_web\<close> has a subdirectory whose name is not
  UTF-8: \<^verbatim>\<open>json.dump\<close> raises \<^verbatim>\<open>UnicodeEncodeError\<close> and leaves a truncated label
  file.
\<close>

theorem create_classes_file_unparsable_counterexample:
  "fst (create_classes_file (host (Some training_unparsable)) scaffold_world) = Inl JSONDecodeError
   \<and> fst (create_classes_file (host (Some training_surrogate)) scaffold_world)
       = Inl UnicodeEncodeError
   \<and> lookup (project (snd (create_classes_file (host (Some training_surrogate)) scaffold_world)))
        [''models'', ''classes.json'']
       = Some (File Writable (Truncated (JArr [JStr surrogate_name])))"
  by (simp add: run_defs training_unparsable_def training_surrogate_def surrogate_name_def
      scaffold_world_def cong: ev_cong)

text \<open>
  C2 as amended: \<^verbatim>\<open>create_classes_file\<close> never returns false (it returns true or it
  raises), and it returns true, the placeholder fallback included, exactly when three
  conditions hold. The labels can be resolved: \<^verbatim>\<open>test_web\<close> is a directory, and then
  nothing is asked of any \<^verbatim>\<open>summary.json\<close>; or \<^verbatim>\<open>test_web\<close> is absent and each
  \<^verbatim>\<open>summary.json\<close> that the loop opens, up to the first one that is a JSON object with
  a \<^verbatim>\<open>classes\<close> member, is a regular file holding a JSON object, or a list or string in
  which \<^verbatim>\<open>classes\<close> does not occur, and the member found is a list, a string or a value
  that counts as false. The labels to write can be encoded in UTF-8. And the label file
  can be written: \<^verbatim>\<open>models\<close> is a directory of the project and \<^verbatim>\<open>classes.json\<close> in it
  is neither a directory nor a read-only file.
\<close>

theorem create_classes_file_returns_true:
  "fst (create_classes_file E w) \<noteq> Inr False
   \<and> (fst (create_classes_file E w) = Inr True)
       = (labels_resolvable E \<and> encodable (resolved_label E)
          \<and> label_file_writable (project w))"
proof (intro conjI)
  obtain out where sh: "\<And>v. extract_classes_from_training E v =
      (extracted E, v\<lparr>console := console v @ out\<rparr>)"
    using extract_shape[of E] by blast
  let ?L = "\<lambda>c. if py_truthy c then c else placeholder_classes"
  show "fst (create_classes_file E w) \<noteq> Inr False"
    by (auto simp: create_classes_file_def prog_simps print_all_apply sh json_dump_apply
        split: sum.splits prod.splits if_splits)
  have run: "(fst (create_classes_file E w) = Inr True) =
      (\<exists>c. extracted E = Inr c \<and> encodable (?L c)
           \<and> (\<exists>root'. write_file (MODELS_DIR @ [''classes.json'']) (Json (?L c)) (project w)
                         = Inr root')
           \<and> ((\<exists>n. py_len (?L c) = Inr n) \<and> (\<exists>l. py_slice5 (?L c) = Inr l)))"
    by (auto simp: create_classes_file_def prog_simps print_all_apply sh json_dump_apply
        split: sum.splits prod.splits if_splits)
  also have "\<dots> = (\<exists>c. extracted E = Inr c \<and> usable_label c \<and> encodable (resolved_label E)
                        \<and> label_file_writable (project w))"
  proof -
    have "(encodable (?L c)
           \<and> (\<exists>root'. write_file (MODELS_DIR @ [''classes.json'']) (Json (?L c)) (project w)
                         = Inr root')
           \<and> ((\<exists>n. py_len (?L c) = Inr n) \<and> (\<exists>l. py_slice5 (?L c) = Inr l)))
          = (usable_label c \<and> encodable (resolved_label E) \<and> label_file_writable (project w))"
      if "extracted E = Inr c" for c
      unfolding extracted_accepted[OF that] label_file_writable_iff
      unfolding extracted_label[OF that]
      by blast
    then show ?thesis by blast
  qed
  also have "\<dots> = (labels_resolvable E \<and> encodable (resolved_label E)
                    \<and> label_file_writable (project w))"
    using extracted_usable[of E] by auto
  finally show "(fst (create_classes_file E w) = Inr True)
       = (labels_resolvable E \<and> encodable (resolved_label E)
          \<and> label_file_writable (project w))" .
qed

theorem create_classes_file_returns_true_witness:
  "labels_resolvable (host (Some training_test_web_unparsable))
   \<and> training_lookup (host (Some training_test_web_unparsable)) [''mfcc'', ''summary.json'']
       = Some (File Writable (Text ''accuracy: 0.93''))
   \<and> fst (create_classes_file (host (Some training_test_web_unparsable)) scaffold_world) = Inr True
   \<and> labels_resolvable (host (Some training_without_labels))
   \<and> fst (create_classes_file (host (Some training_without_labels)) scaffold_world) = Inr True
   \<and> \<not> labels_resolvable (host (Some training_unparsable))
   \<and> fst (create_classes_file (host (Some training_unparsable)) scaffold_world) \<noteq> Inr True
   \<and> \<not> encodable (resolved_label (host (Some training_surrogate)))
   \<and> fst (create_classes_file (host (Some training_surrogate)) scaffold_world) \<noteq> Inr True"
proof -
  let ?A = "host (Some training_test_web_unparsable)"
  let ?B = "host (Some training_without_labels)"
  let ?C = "host (Some training_unparsable)"
  let ?D = "host (Some training_surrogate)"
  have w: "label_file_writable (project scaffold_world)"
    by (simp add: label_file_writable_def is_dir_def scaffold_world_def scaffold_def path_defs)
  have a1: "labels_resolvable ?A"
    by (simp add: labels_resolvable_def training_lookup_def host_def
        training_test_web_unparsable_def)
  have a2: "encodable (resolved_label ?A)"
    by (simp add: resolved_label_def training_lookup_def host_def
        training_test_web_unparsable_def op_defs)
  have a3: "training_lookup ?A [''mfcc'', ''summary.json'']
       = Some (File Writable (Text ''accuracy: 0.93''))"
    by (simp add: training_lookup_def host_def training_test_web_unparsable_def)
  have b1: "labels_resolvable ?B"
    by (simp add: labels_resolvable_def training_lookup_def host_def
        training_without_labels_def path_defs)
  have b2: "encodable (resolved_label ?B)"
    by (simp add: resolved_label_def training_lookup_def host_def
        training_without_labels_def path_defs op_defs)
  have c1: "\<not> labels_resolvable ?C"
    by (simp add: labels_resolvable_def training_lookup_def host_def
        training_unparsable_def path_defs)
  have d1: "\<not> encodable (resolved_label ?D)"
    by (simp add: resolved_label_def training_lookup_def host_def
        training_surrogate_def surrogate_name_def op_defs)
  from create_classes_file_returns_true[of ?A scaffold_world]
    create_classes_file_returns_true[of ?B scaffold_world]
    create_classes_file_returns_true[of ?C scaffold_world]
    create_classes_file_returns_true[of ?D scaffold_world]
    w a1 a2 a3 b1 b2 c1 d1
  show ?thesis
    by simp
qed

text \<open>
  C3. If \<^verbatim>\<open>TRAINING_DIR\<close> does not exist, \<^verbatim>\<open>copy_models\<close> reports it, returns false and
  leaves the project tree as it is: nothing is created under \<^verbatim>\<open>models\<close>. The caller goes
  on: when steps 1 and 2 have brought the run to the state \<open>w\<close> (a compatible Python, no
  interrupt so far, the project structure created), the whole of \<^verbatim>\<open>main\<close> is steps 4 to
  9 run from \<open>w\<close> with the lines of step 3 added to the console.
\<close>

theorem copy_models_missing_source_root:
  assumes "training E = None"
    and "version_info E = (3, minor, micro)" and "8 \<le> minor"
    and "sigint E \<notin> {Some 1, Some 2, Some 3}"
    and "create_project_structure
           (w0\<lparr>console := console w0 @
              [Print [T rule60], Print [T ''SETUP AUTOMATICO - CLASIFICADOR DE AUDIO''],
               Print [T rule60], Step [T ''Verificando version de Python...''],
               Success [T ''Python '', N 3, T ''.'', N minor, T ''.'', N micro]]\<rparr>) = (Inr (), w)"
  shows "copy_models E w =
           (Inr False,
            w\<lparr>console := console w @
               [Step [T ''Copiando modelos entrenados...''],
                Error [T ''Directorio de entrenamiento no encontrado: '', Src []],
                Warning [T ''Por favor, ajusta la variable TRAINING_DIR en este script'']]\<rparr>)
         \<and> main E w0 =
             main_from_step_4 E
               (w\<lparr>console := console w @
                  [Step [T ''Copiando modelos entrenados...''],
                   Error [T ''Directorio de entrenamiento no encontrado: '', Src []],
                   Warning [T ''Por favor, ajusta la variable TRAINING_DIR en este script''],
                   Warning [T ''Algunos modelos no se copiaron. Verifica la ruta TRAINING_DIR'']]\<rparr>)"
proof -
  have "main E w0 =
             main_from_step_4 E
               (w\<lparr>console := console w @
                  [Step [T ''Copiando modelos entrenados...''],
                   Error [T ''Directorio de entrenamiento no encontrado: '', Src []],
                   Warning [T ''Por favor, ajusta la variable TRAINING_DIR en este script''],
                   Warning [T ''Algunos modelos no se copiaron. Verifica la ruta TRAINING_DIR'']]\<rparr>)"
    using assms(2-5)
    by (simp add: main_def main_from_step_4_def check_python_version_def print_all_apply
        copy_models_no_training[OF assms(1)] prog_simps cong: ev_cong)
  with copy_models_no_training[OF assms(1)] show ?thesis by simp
qed


theorem copy_models_missing_source_root_witness:
  "training (host None) = None
   \<and> fst (copy_models (host None) scaffold_world) = Inr False
   \<and> project (snd (copy_models (host None) scaffold_world)) = scaffold
   \<and> fst (main (host None) empty_project) = Inr ()
   \<and> project (snd (main (host None) empty_project)) = finished_project"
proof -
  let ?w = "\<lparr>project = scaffold, console =
              [Print [T rule60], Print [T ''SETUP AUTOMATICO - CLASIFICADOR DE AUDIO''],
               Print [T rule60], Step [T ''Verificando version de Python...''],
               Success [T ''Python '', N 3, T ''.'', N 11, T ''.'', N 2],
               Step [T ''Creando estructura de directorios...''],
               Success [T ''Directorio creado: '', Proj [''models'']],
               Success [T ''Directorio creado: '', Proj [''templates'']],
               Success [T ''Directorio creado: '', Proj [''uploads'']],
               Success [T ''Directorio creado: '', Proj [''results'']],
               Success [T ''Directorio creado: '', Proj [''static'']]]\<rparr>"
  have h1: "training (host None) = None"
    by (simp add: host_def)
  have h2: "version_info (host None) = (3, 11, 2)"
    by (simp add: host_def)
  have h3: "(8::nat) \<le> 11"
    by simp
  have h4: "sigint (host None) \<notin> {Some 1, Some 2, Some 3}"
    by (simp add: host_def)
  have h5: "create_project_structure
           (empty_project\<lparr>console := console empty_project @
              [Print [T rule60], Print [T ''SETUP AUTOMATICO - CLASIFICADOR DE AUDIO''],
               Print [T rule60], Step [T ''Verificando version de Python...''],
               Success [T ''Python '', N 3, T ''.'', N 11, T ''.'', N 2]]\<rparr>) = (Inr (), ?w)"
    by (simp add: run_defs cong: ev_cong)
  note t = copy_models_missing_source_root[OF h1 h2 h3 h4 h5]
  have c: "copy_models (host None) scaffold_world =
     (Inr False,
      scaffold_world\<lparr>console := console scaffold_world @
         [Step [T ''Copiando modelos entrenados...''],
          Error [T ''Directorio de entrenamiento no encontrado: '', Src []],
          Warning [T ''Por favor, ajusta la variable TRAINING_DIR en este script'']]\<rparr>)"
    by (rule copy_models_no_training[OF h1])
  have m: "main (host None) empty_project = main_from_step_4 (host None)
      (?w\<lparr>console := console ?w @
                  [Step [T ''Copiando modelos entrenados...''],
                   Error [T ''Directorio de entrenamiento no encontrado: '', Src []],
                   Warning [T ''Por favor, ajusta la variable TRAINING_DIR en este script''],
                   Warning [T ''Algunos modelos no se copiaron. Verifica la ruta TRAINING_DIR'']]\<rparr>)"
    using t by simp
  have r1: "fst (main (host None) empty_project) = Inr ()"
    unfolding m by (simp add: run_defs cong: ev_cong)
  have r2: "project (snd (main (host None) empty_project)) = finished_project"
    unfolding m by (simp add: run_defs finished_project_def cong: ev_cong)
  from h1 c r1 r2 show ?thesis
    by (simp add: scaffold_world_def)
qed



text \<open>
  C5. The claim: without \<^verbatim>\<open>test_web\<close>, the label file is the \<^verbatim>\<open>classes\<close> field of the
  first category whose \<^verbatim>\<open>summary.json\<close> exists, parses and has the field, verbatim. It
  fails when that field is empty: the loop stops there, and \<^verbatim>\<open>create_classes_file\<close>
  replaces the empty value by the placeholder list.
\<close>

theorem tier2_first_metadata_verbatim_counterexample:
  "training_lookup (host (Some training_empty_classes)) [''test_web''] = None
   \<and> training_lookup (host (Some training_empty_classes)) [''mfcc'', ''summary.json''] =
       Some (File Writable (Json (JObj [(''classes'', JArr [])])))
   \<and> lookup (project (snd (create_classes_file (host (Some training_empty_classes)) scaffold_world)))
        [''models'', ''classes.json''] = Some (File Writable (Json placeholder_classes))
   \<and> placeholder_classes \<noteq> JArr []"
  by (simp add: run_defs training_empty_classes_def scaffold_world_def cong: ev_cong)

text \<open>
  C5 as amended: without \<^verbatim>\<open>test_web\<close>, when every category before \<open>category\<close> in the
  fixed list has no \<^verbatim>\<open>summary.json\<close> or one that parses and has no \<^verbatim>\<open>classes\<close> field,
  and the \<^verbatim>\<open>summary.json\<close> of \<open>category\<close> holds a JSON object whose \<^verbatim>\<open>classes\<close> field is
  a non-empty list, and the label file can be written (the dump of that list to
  \<^verbatim>\<open>models/classes.json\<close> returns: the file can be opened for writing and the labels
  can be encoded in UTF-8), the label file written is exactly that list, in its order
  and with its duplicates. Nothing is assumed of the categories after \<open>category\<close>: they
  are not read, and nothing of theirs is merged.
\<close>

theorem tier2_first_metadata_verbatim:
  assumes "training_lookup E [''test_web''] = None"
    and "FEATURE_TYPES = before @ category # later"
    and "\<forall>c\<in>set before. without_classes E c"
    and "training_lookup E [category, ''summary.json''] = Some (File m (Json (JObj kvs)))"
    and "map_of kvs ''classes'' = Some (JArr (l # ls))"
    and "json_dump (MODELS_DIR @ [''classes.json'']) (JArr (l # ls)) w
         = (Inr (), w\<lparr>project := root'\<rparr>)"
  shows "\<exists>out. create_classes_file E w =
           (Inr True, w\<lparr>project := root', console := console w @ out\<rparr>)
         \<and> lookup root' (MODELS_DIR @ [''classes.json''])
             = Some (File Writable (Json (JArr (l # ls))))"
proof -
  let ?label = "JArr (l # ls)"
  let ?w = "w\<lparr>console := console w @ [Step [T ''Creando archivo de clases...'']]\<rparr>"
  let ?ex = "[Step [T ''Extrayendo clases desde datos de entrenamiento...''],
              Success [T ''Clases encontradas en metadata: '', N (length (l # ls))]]"
  have "classes_from_metadata E FEATURE_TYPES = py_getitem (JObj kvs) ''classes''"
    unfolding assms(2)
    by (rule classes_from_metadata_first[OF assms(3) assms(4)])
       (simp_all add: json_load_def py_in_def assms(5))
  then have cfm: "classes_from_metadata E FEATURE_TYPES = Inr ?label"
    by (simp add: py_getitem_def assms(5))
  have truthy: "py_truthy ?label"
    by (simp add: py_truthy_def)
  have ex: "extract_classes_from_training E ?w = (Inr ?label, ?w\<lparr>console := console ?w @ ?ex\<rparr>)"
    using extract_metadata[OF assms(1) cfm, of ?w] by simp
  have len: "py_len (if py_truthy ?label then ?label else placeholder_classes) = Inr (length (l # ls))"
    using truthy by (simp add: py_len_def)
  have sl: "py_slice5 (if py_truthy ?label then ?label else placeholder_classes) = Inr (take 5 (l # ls))"
    using truthy by (simp add: py_slice5_def)
  note dump = json_dump_write[OF assms(6)]
  have enc: "encodable (if py_truthy ?label then ?label else placeholder_classes)"
    using truthy dump(1) by simp
  have wr: "write_file (MODELS_DIR @ [''classes.json''])
      (Json (if py_truthy ?label then ?label else placeholder_classes))
      (project (?w\<lparr>console := console ?w @ ?ex\<rparr>)) = Inr root'"
    using truthy dump(2) by simp
  let ?out = "[Step [T ''Creando archivo de clases...'']] @ ?ex @
          [Success [T ''Archivo creado: '', Proj (MODELS_DIR @ [''classes.json''])],
           Success [T ''Clases totales: '', N (length (l # ls))]] @
         class_lines 1 (take 5 (l # ls)) @
         (if length (l # ls) > 5 then [Print [T ''  ... y '', N (length (l # ls) - 5), T '' mas'']] else [])"
  have "create_classes_file E w = (Inr True, w\<lparr>project := root', console := console w @ ?out\<rparr>)"
    using create_classes_file_result[OF ex refl enc wr len sl] truthy by simp
  then have "\<exists>out. create_classes_file E w = (Inr True, w\<lparr>project := root', console := console w @ out\<rparr>)"
    by blast
  moreover note write_file_lookup[OF dump(2)]
  ultimately show ?thesis by blast
qed

theorem tier2_first_metadata_verbatim_witness:
  "training_lookup (host (Some training_metadata_only)) [''test_web''] = None
   \<and> without_classes (host (Some training_metadata_only)) ''mfcc''
   \<and> training_lookup (host (Some training_metadata_only)) [''concat'', ''summary.json''] =
       Some (File Writable (Json (JObj [(''classes'', JArr [JStr ''z''])])))
   \<and> fst (create_classes_file (host (Some training_metadata_only)) scaffold_world) = Inr True
   \<and> lookup (project (snd (create_classes_file (host (Some training_metadata_only)) scaffold_world)))
        [''models'', ''classes.json''] = Some (File Writable (Json (JArr [JStr ''b'', JStr ''a'', JStr ''b''])))"
proof -
  let ?E = "host (Some training_metadata_only)"
  let ?kvs = "[(''folds'', JInt 5), (''classes'', JArr [JStr ''b'', JStr ''a'', JStr ''b''])]"
  have h1: "training_lookup ?E [''test_web''] = None"
    by (simp add: training_lookup_def host_def training_metadata_only_def)
  have h2: "FEATURE_TYPES = [''mfcc''] @ ''mel'' # [''concat'']"
    by (simp add: FEATURE_TYPES_def)
  have wc: "without_classes ?E ''mfcc''"
    by (simp add: without_classes_def training_lookup_def host_def training_metadata_only_def)
  then have h3: "\<forall>c\<in>set [''mfcc'']. without_classes ?E c"
    by simp
  have h4: "training_lookup ?E [''mel'', ''summary.json''] = Some (File Writable (Json (JObj ?kvs)))"
    by (simp add: training_lookup_def host_def training_metadata_only_def)
  have h5: "map_of ?kvs ''classes'' = Some (JArr (JStr ''b'' # [JStr ''a'', JStr ''b'']))"
    by simp
  have h6: "json_dump (MODELS_DIR @ [''classes.json''])
      (JArr (JStr ''b'' # [JStr ''a'', JStr ''b''])) scaffold_world =
      (Inr (), scaffold_world\<lparr>project :=
         Dir [(''models'', Dir [(''classes.json'',
                                 File Writable (Json (JArr [JStr ''b'', JStr ''a'', JStr ''b''])))]),
              (''templates'', Dir []), (''uploads'', Dir []), (''results'', Dir []),
              (''static'', Dir [])]\<rparr>)"
    by (simp add: json_dump_apply scaffold_world_def scaffold_def path_defs followers_def)
  have h7: "training_lookup ?E [''concat'', ''summary.json''] =
       Some (File Writable (Json (JObj [(''classes'', JArr [JStr ''z''])])))"
    by (simp add: training_lookup_def host_def training_metadata_only_def)
  from tier2_first_metadata_verbatim[OF h1 h2 h3 h4 h5 h6] h1 wc h7 show ?thesis
    by (auto simp: path_defs)
qed

text \<open>
  C6. Tier 3 of the label resolver: when what \<^verbatim>\<open>extract_classes_from_training\<close> returns,
  from the directory listing or from the metadata, is empty (false as Python tests it),
  and the label file can be written, the file written is the placeholder list of three
  labels, and the warning that asks for a manual edit is printed.
\<close>

theorem tier3_placeholder:
  assumes "fst (extract_classes_from_training E w) = Inr classes"
    and "\<not> py_truthy classes"
    and "write_file (MODELS_DIR @ [''classes.json'']) (Json placeholder_classes) (project w) = Inr root'"
  shows "\<exists>out. create_classes_file E w =
           (Inr True, w\<lparr>project := root', console := console w @ out\<rparr>)
         \<and> Warning [T ''Por favor, edita manualmente models/classes.json''] \<in> set out
         \<and> lookup root' (MODELS_DIR @ [''classes.json''])
             = Some (File Writable (Json placeholder_classes))"
proof -
  obtain out where sh: "\<And>v. extract_classes_from_training E v =
      (extracted E, v\<lparr>console := console v @ out\<rparr>)"
    using extract_shape[of E] by blast
  from assms(1) sh[of w] have r: "extracted E = Inr classes" by simp
  let ?w = "w\<lparr>console := console w @ [Step [T ''Creando archivo de clases...'']]\<rparr>"
  have ex: "extract_classes_from_training E ?w = (Inr classes, ?w\<lparr>console := console ?w @ out\<rparr>)"
    using sh[of ?w] r by simp
  have enc: "encodable (if py_truthy classes then classes else placeholder_classes)"
    using assms(2) by (simp add: encodable_placeholder)
  have "create_classes_file E w = (Inr True,
      w\<lparr>project := root', console := console w @
         (Step [T ''Creando archivo de clases...''] # out @
          [Warning [T ''No se pudieron extraer clases automaticamente''],
           Warning [T ''Por favor, edita manualmente models/classes.json''],
           Success [T ''Archivo creado: '', Proj (MODELS_DIR @ [''classes.json''])],
           Success [T ''Clases totales: '', N 3]] @
          class_lines 1 [JStr ''clase_ejemplo_1'', JStr ''clase_ejemplo_2'', JStr ''clase_ejemplo_3''])\<rparr>)"
    using create_classes_file_result[OF ex refl enc _ placeholder_facts(1)[OF assms(2)] placeholder_facts(2)[OF assms(2)]]
      assms(2,3) by simp
  moreover have "lookup root' (MODELS_DIR @ [''classes.json''])
      = Some (File Writable (Json placeholder_classes))"
    using write_file_lookup[OF assms(3)] .
  ultimately show ?thesis by (intro exI conjI) (assumption, simp, assumption)
qed


theorem tier3_placeholder_witness:
  "fst (extract_classes_from_training (host (Some training_without_labels)) scaffold_world) = Inr (JArr [])
   \<and> \<not> py_truthy (JArr [])
   \<and> fst (create_classes_file (host (Some training_without_labels)) scaffold_world) = Inr True
   \<and> project (snd (create_classes_file (host (Some training_without_labels)) scaffold_world))
        = scaffold_with_placeholder
   \<and> Warning [T ''Por favor, edita manualmente models/classes.json'']
        \<in> set (console (snd (create_classes_file (host (Some training_without_labels)) scaffold_world)))"
proof -
  have h1: "fst (extract_classes_from_training (host (Some training_without_labels)) scaffold_world) = Inr (JArr [])"
    by (simp add: extract_classes_from_training_def training_lookup_def host_def
        training_without_labels_def prog_simps path_defs op_defs cong: ev_cong)
  have h2: "\<not> py_truthy (JArr [])"
    by (simp add: py_truthy_def)
  from tier3_placeholder[OF h1 h2 write_placeholder_scaffold] h1 h2 show ?thesis
    by (auto simp: scaffold_world_def)
qed

text \<open>
  C7. The verifier never raises. It returns true exactly when every category of the
  fixed list is valid as the specification defines it (\<open>category_valid\<close>), and it
  prints one line for each category, in order, whatever the verdicts of the categories
  before it: a warning exactly for the categories that are not valid.
\<close>

theorem verify_models_verdict:
  "verify_models w =
     (Inr (\<forall>c\<in>set FEATURE_TYPES. category_valid (project w) c),
      w\<lparr>console := console w @
         Step [T ''Verificando modelos...''] # map (verdict_line (project w)) FEATURE_TYPES\<rparr>)
   \<and> (\<forall>c\<in>set FEATURE_TYPES.
         is_Warning (verdict_line (project w) c) = (\<not> category_valid (project w) c))"
proof -
  have "verify_models w =
     (Inr (\<forall>c\<in>set FEATURE_TYPES. category_valid (project w) c),
      w\<lparr>console := console w @
         Step [T ''Verificando modelos...''] # map (verdict_line (project w)) FEATURE_TYPES\<rparr>)"
    by (simp add: verify_models_def prog_simps verify_features_result list_all_iff)
  moreover have "is_Warning (verdict_line (project w) c) = (\<not> category_valid (project w) c)" for c
    by (simp add: verdict_line_def is_Warning_def category_valid_def Let_def)
  ultimately show ?thesis by blast
qed


theorem verify_models_verdict_witness:
  "category_valid (project provisioned_world) ''mfcc''
   \<and> \<not> category_valid (project provisioned_world) ''mel''
   \<and> \<not> category_valid (project provisioned_world) ''concat''
   \<and> verify_models provisioned_world =
       (Inr False,
        provisioned_world\<lparr>console :=
          [Step [T ''Verificando modelos...''],
           Success [T ''mfcc'', T '': '', N 5, T '' modelos encontrados''],
           Warning [T ''mel'', T '': Solo '', N 4, T ''/'', N 5, T '' modelos''],
           Warning [T ''Carpeta de modelos no existe: '', Proj [''models'', ''concat'', ''models'']]]\<rparr>)"
proof -
  have g1: "glob_h5 (lookup (project provisioned_world) [''models'', ''mfcc'', ''models'']) =
      [(''fold_1.h5'', File Writable (Text ''m1'')), (''fold_2.h5'', File Writable (Text ''m2'')),
       (''fold_3.h5'', File Writable (Text ''m3'')), (''fold_4.h5'', File Writable (Text ''m4'')),
       (''fold_5.h5'', File Writable (Text ''m5''))]"
    by (simp add: provisioned_world_def five_models_def glob_h5_def is_h5_def)
  have g2: "glob_h5 (lookup (project provisioned_world) [''models'', ''mel'', ''models'']) =
      [(''fold_1.h5'', File Writable (Text ''m1'')), (''fold_2.h5'', File Writable (Text ''m2'')),
       (''fold_3.h5'', File Writable (Text ''m3'')), (''fold_4.h5'', File Writable (Text ''m4''))]"
    by (simp add: provisioned_world_def four_models_def glob_h5_def is_h5_def)
  have l1: "lookup (project provisioned_world) [''models'', ''mfcc'', ''models''] \<noteq> None"
    and l2: "lookup (project provisioned_world) [''models'', ''mel'', ''models''] \<noteq> None"
    and l3: "lookup (project provisioned_world) [''models'', ''concat'', ''models''] = None"
    by (simp_all add: provisioned_world_def)
  have v1: "category_valid (project provisioned_world) ''mfcc''"
    using l1 by (simp add: category_valid_def g1)
  have v2: "\<not> category_valid (project provisioned_world) ''mel''"
    using l2 by (simp add: category_valid_def g2)
  have v3: "\<not> category_valid (project provisioned_world) ''concat''"
    using l3 by (simp add: category_valid_def)
  have c: "console provisioned_world = []"
    by (simp add: provisioned_world_def)
  from verify_models_verdict[of provisioned_world] v1 v2 v3 l1 l2 l3 c show ?thesis
    by (simp add: FEATURE_TYPES_def verdict_line_def g1 g2)
qed

text \<open>
  C8. The claim: for any state of the training tree, a second run of the provisioner
  leaves the files under \<^verbatim>\<open>models\<close> as the first run left them, and copies the same
  number of model files. It fails when a model file of the training tree is read-only:
  \<^verbatim>\<open>shutil.copy2\<close> gives the copy the mode of its source, so the first run returns
  true and the second run cannot open the copy for writing. It raises
  \<^verbatim>\<open>PermissionError\<close> and has no count.
\<close>

theorem copy_models_read_only_counterexample:
  "fst (copy_models (host (Some training_read_only)) scaffold_world) = Inr True
   \<and> lookup (project (snd (copy_models (host (Some training_read_only)) scaffold_world)))
        [''models'', ''mfcc'', ''models'', ''fold_1.h5'']
       = Some (File ReadOnly (Text ''m1''))
   \<and> fst (copy_models (host (Some training_read_only))
            (snd (copy_models (host (Some training_read_only)) scaffold_world)))
       = Inl PermissionError"
  by (simp add: run_defs training_read_only_def scaffold_world_def cong: ev_cong)

text \<open>
  C8 as amended. Whatever a first run of \<^verbatim>\<open>copy_models\<close> does from any state of the
  project, returning a value or raising an exception, and whatever the training tree
  holds, a second run from the state the first one left leaves the project tree exactly
  as the first run left it. When no file that the provisioner copies is read-only, the
  second run also does the same again: the same value or exception and the same lines
  printed (\<open>out\<close>, the line of the total among them); and when the training directory
  exists and the loop over the categories of the first run returns
  \<^verbatim>\<open>copied_count = n\<close>, the loop of the second run returns the same \<open>n\<close>. When a file
  that it copies is read-only, the second run of a provisioner that returned raises
  \<^verbatim>\<open>PermissionError\<close>, and the second run of one that raised raises the same exception
  or \<^verbatim>\<open>PermissionError\<close>.
\<close>

theorem copy_models_idempotent:
  assumes "copy_models E w = (r, w1)"
  shows "project (snd (copy_models E w1)) = project w1
         \<and> (sources_writable E \<longrightarrow>
              (\<exists>out. console w1 = console w @ out
                    \<and> copy_models E w1 = (r, w1\<lparr>console := console w1 @ out\<rparr>))
              \<and> (training E \<noteq> None \<longrightarrow>
                   (\<forall>n w'. copy_features E FEATURE_TYPES 0
                              (w\<lparr>console := console w @ [Step [T ''Copiando modelos entrenados...'']]\<rparr>)
                            = (Inr n, w') \<longrightarrow>
                      r = Inr (0 < n)
                      \<and> (\<exists>w''. copy_features E FEATURE_TYPES 0
                                  (w1\<lparr>console := console w1 @ [Step [T ''Copiando modelos entrenados...'']]\<rparr>)
                                = (Inr n, w'')
                              \<and> project w'' = project w1))))
         \<and> (\<not> sources_writable E \<longrightarrow>
              (\<forall>b. r = Inr b \<longrightarrow> fst (copy_models E w1) = Inl PermissionError)
              \<and> (\<forall>e. r = Inl e \<longrightarrow> fst (copy_models E w1) = Inl e
                                   \<or> fst (copy_models E w1) = Inl PermissionError))"
proof -
  let ?s = "Step [T ''Copiando modelos entrenados...'']"
  from rerun_copy_models[of E] obtain P W where rr: "rerun (sources_writable E) (copy_models E) P W"
    by blast
  have second: "(sources_writable E \<longrightarrow>
                   (\<exists>out. console w1 = console w @ out
                         \<and> copy_models E w1 = (r, w1\<lparr>console := console w1 @ out\<rparr>)))
                \<and> (\<exists>r' out'. copy_models E w1 = (r', w1\<lparr>console := console w1 @ out'\<rparr>))
                \<and> (\<not> sources_writable E \<longrightarrow>
                     (\<forall>b. r = Inr b \<longrightarrow> fst (copy_models E w1) = Inl PermissionError)
                     \<and> (\<forall>e. r = Inl e \<longrightarrow> fst (copy_models E w1) = Inl e
                                   \<or> fst (copy_models E w1) = Inl PermissionError))"
  proof (cases r)
    case (Inr copied)
    with assms have run: "copy_models E w = (Inr copied, w1)" by simp
    from rerun_run[OF rr run] obtain out where o: "console w1 = console w @ out"
      and "P (project w1)"
      and "\<And>v. P (project v) \<Longrightarrow> returns_again (sources_writable E) (copy_models E) copied out v"
      by blast
    then have "returns_again (sources_writable E) (copy_models E) copied out w1"
      by simp
    with Inr o show ?thesis
      by (cases "sources_writable E") (auto simp: returns_again_def)
  next
    case (Inl e)
    with assms have run: "copy_models E w = (Inl e, w1)" by simp
    from rerun_raise[OF rr run] obtain out where o: "console w1 = console w @ out"
      and "\<And>v. project v = project w1 \<Longrightarrow>
             raises_again (sources_writable E) (copy_models E) e out v"
      by blast
    then have "raises_again (sources_writable E) (copy_models E) e out w1"
      by simp
    with Inl o show ?thesis
      by (cases "sources_writable E") (auto simp: raises_again_def)
  qed
  then have tree: "project (snd (copy_models E w1)) = project w1"
    by auto
  have count: "r = Inr (0 < n)
                \<and> (\<exists>w''. copy_features E FEATURE_TYPES 0 (w1\<lparr>console := console w1 @ [?s]\<rparr>)
                            = (Inr n, w'')
                          \<and> project w'' = project w1)"
    if s: "sources_writable E" and t: "training E \<noteq> None"
      and f1: "copy_features E FEATURE_TYPES 0 (w\<lparr>console := console w @ [?s]\<rparr>) = (Inr n, w')"
    for n w'
  proof -
    from copy_models_run[OF t f1] assms
    have r: "r = Inr (0 < n)" and pr: "project w1 = project w'"
      by auto
    have "distinct FEATURE_TYPES"
      by (simp add: FEATURE_TYPES_def)
    from rerun_copy_features[OF this, of E] obtain Q where
      Q: "rerun (sources_writable E) (copy_features E FEATURE_TYPES 0) Q
              (\<Union>f\<in>set FEATURE_TYPES. {p. take 2 p = [''models'', f]})"
      unfolding sources_writable_def by blast
    from rerun_run[OF Q f1] obtain out' where q: "Q (project w')"
      and n': "\<And>v. Q (project v) \<Longrightarrow>
                 returns_again (sources_writable E) (copy_features E FEATURE_TYPES 0) n out' v"
      by blast
    let ?v = "w1\<lparr>console := console w1 @ [?s]\<rparr>"
    from q pr have "Q (project ?v)" by simp
    from n'[OF this] s
    have "copy_features E FEATURE_TYPES 0 ?v = (Inr n, ?v\<lparr>console := console ?v @ out'\<rparr>)"
      by (simp add: returns_again_def)
    moreover have "project (?v\<lparr>console := console ?v @ out'\<rparr>) = project w1" by simp
    ultimately show ?thesis using r by blast
  qed
  from second tree count show ?thesis by blast
qed

theorem copy_models_idempotent_witness:
  "sources_writable (host (Some training_two_categories))
   \<and> fst (copy_models (host (Some training_two_categories)) scaffold_world) = Inr True
   \<and> length (glob_h5 (lookup (project (snd (copy_models (host (Some training_two_categories))
                                                     scaffold_world)))
                          [''models'', ''mfcc'', ''models''])) = 5
   \<and> lookup (project (snd (copy_models (host (Some training_two_categories)) scaffold_world)))
        [''models'', ''mfcc'', ''summary.json''] = Some summary_ab
   \<and> fst (copy_models (host (Some training_two_categories))
            (snd (copy_models (host (Some training_two_categories)) scaffold_world))) = Inr True
   \<and> project (snd (copy_models (host (Some training_two_categories))
            (snd (copy_models (host (Some training_two_categories)) scaffold_world))))
       = project (snd (copy_models (host (Some training_two_categories)) scaffold_world))
   \<and> fst (copy_features (host (Some training_two_categories)) FEATURE_TYPES 0
            (scaffold_world\<lparr>console := console scaffold_world @
               [Step [T ''Copiando modelos entrenados...'']]\<rparr>)) = Inr 9
   \<and> fst (copy_features (host (Some training_two_categories)) FEATURE_TYPES 0
            ((snd (copy_models (host (Some training_two_categories)) scaffold_world))
               \<lparr>console := console (snd (copy_models (host (Some training_two_categories))
                                           scaffold_world)) @
               [Step [T ''Copiando modelos entrenados...'']]\<rparr>)) = Inr 9
   \<and> sources_writable (host (Some training_without_models))
   \<and> fst (copy_models (host (Some training_without_models))
            (snd (copy_models (host (Some training_without_models)) scaffold_world)))
       = Inl FileNotFoundError
   \<and> \<not> sources_writable (host (Some training_read_only))
   \<and> fst (copy_models (host (Some training_read_only))
            (snd (copy_models (host (Some training_read_only)) scaffold_world)))
       = Inl PermissionError
   \<and> project (snd (copy_models (host (Some training_read_only))
            (snd (copy_models (host (Some training_read_only)) scaffold_world))))
       = project (snd (copy_models (host (Some training_read_only)) scaffold_world))"
proof -
  let ?E = "host (Some training_two_categories)"
  let ?w1 = "snd (copy_models ?E scaffold_world)"
  let ?s = "Step [T ''Copiando modelos entrenados...'']"
  let ?v0 = "scaffold_world\<lparr>console := console scaffold_world @ [?s]\<rparr>"
  let ?v1 = "?w1\<lparr>console := console ?w1 @ [?s]\<rparr>"
  have sw: "sources_writable ?E"
    by (simp add: sources_writable_def copied_files_def read_only_def run_defs
        training_two_categories_def five_models_def four_models_def)
  have f1: "fst (copy_models ?E scaffold_world) = Inr True"
    by (simp add: run_defs scaffold_world_def training_two_categories_def five_models_def
        four_models_def cong: ev_cong)
  have p1: "lookup (project ?w1) [''models'', ''mfcc''] =
      Some (Dir [(''models'',
                  Dir [(''fold_1.h5'', File Writable (Text ''m1'')),
                       (''fold_2.h5'', File Writable (Text ''m2'')),
                       (''fold_3.h5'', File Writable (Text ''m3'')),
                       (''fold_4.h5'', File Writable (Text ''m4'')),
                       (''fold_5.h5'', File Writable (Text ''m5''))]),
                 (''summary.json'', summary_ab),
                 (''fold_metrics.csv'', File Writable (Text ''fold,accuracy''))])"
    by (simp add: run_defs scaffold_world_def training_two_categories_def five_models_def
        four_models_def cong: ev_cong)
  have g: "length (glob_h5 (lookup (project ?w1) [''models'', ''mfcc'', ''models''])) = 5"
    using p1 lookup_append[of "project ?w1" "[''models'', ''mfcc'']" "[''models'']"]
    by (simp add: glob_h5_def is_h5_def)
  have s: "lookup (project ?w1) [''models'', ''mfcc'', ''summary.json''] = Some summary_ab"
    using p1 lookup_append[of "project ?w1" "[''models'', ''mfcc'']" "[''summary.json'']"]
    by simp
  have c1: "fst (copy_features ?E FEATURE_TYPES 0 ?v0) = Inr 9"
    by (simp add: run_defs scaffold_world_def training_two_categories_def five_models_def
        four_models_def cong: ev_cong)
  then have crun: "copy_features ?E FEATURE_TYPES 0 ?v0 = (Inr 9, snd (copy_features ?E FEATURE_TYPES 0 ?v0))"
    by (cases "copy_features ?E FEATURE_TYPES 0 ?v0") simp
  have t: "training ?E \<noteq> None"
    by (simp add: host_def)
  from f1 have run: "copy_models ?E scaffold_world = (Inr True, ?w1)"
    by (cases "copy_models ?E scaffold_world") simp
  from copy_models_idempotent[OF run] sw t crun obtain out w'' where
    "copy_models ?E ?w1 = (Inr True, ?w1\<lparr>console := console ?w1 @ out\<rparr>)"
    and "copy_features ?E FEATURE_TYPES 0 ?v1 = (Inr 9, w'')"
    by blast
  then have "fst (copy_models ?E ?w1) = Inr True"
    and "project (snd (copy_models ?E ?w1)) = project ?w1"
    and "fst (copy_features ?E FEATURE_TYPES 0 ?v1) = Inr 9"
    by simp_all
  moreover have "sources_writable (host (Some training_without_models))
       \<and> fst (copy_models (host (Some training_without_models))
            (snd (copy_models (host (Some training_without_models)) scaffold_world)))
       = Inl FileNotFoundError"
  proof -
    let ?B = "host (Some training_without_models)"
    have b: "sources_writable ?B"
      by (simp add: sources_writable_def copied_files_def read_only_def run_defs)
    have "fst (copy_models ?B scaffold_world) = Inl FileNotFoundError"
      by (simp add: run_defs scaffold_world_def cong: ev_cong)
    then have "copy_models ?B scaffold_world = (Inl FileNotFoundError, snd (copy_models ?B scaffold_world))"
      by (cases "copy_models ?B scaffold_world") simp
    from copy_models_idempotent[OF this] b show ?thesis
      by auto
  qed
  moreover have "\<not> sources_writable (host (Some training_read_only))
       \<and> fst (copy_models (host (Some training_read_only))
            (snd (copy_models (host (Some training_read_only)) scaffold_world)))
          = Inl PermissionError
       \<and> project (snd (copy_models (host (Some training_read_only))
            (snd (copy_models (host (Some training_read_only)) scaffold_world))))
          = project (snd (copy_models (host (Some training_read_only)) scaffold_world))"
  proof -
    let ?R = "host (Some training_read_only)"
    have b: "\<not> sources_writable ?R"
      by (simp add: sources_writable_def copied_files_def read_only_def run_defs
          training_read_only_def)
    have "fst (copy_models ?R scaffold_world) = Inr True"
      by (simp add: run_defs scaffold_world_def training_read_only_def cong: ev_cong)
    then have "copy_models ?R scaffold_world = (Inr True, snd (copy_models ?R scaffold_world))"
      by (cases "copy_models ?R scaffold_world") simp
    from copy_models_idempotent[OF this] b show ?thesis
      by auto
  qed
  ultimately show ?thesis
    using sw f1 g s c1 by simp
qed

text \<open>
  C9. The exit code of the process. A run of \<^verbatim>\<open>main\<close> that returns exits with code 0, and
  so does one that the user interrupts (the handler of \<^verbatim>\<open>KeyboardInterrupt\<close> prints its
  own message). An incompatible Python version exits with code 1 with the project tree
  untouched: only the banner and the two lines of the version check are printed. Any
  other exception that reaches the top level is logged with a trace and gives exit code
  1.
\<close>

theorem script_exit_codes:
  "(fst (main E w) = Inr () \<longrightarrow> script E w = (0, snd (main E w)))
   \<and> (fst (main E w) = Inl KeyboardInterrupt \<longrightarrow>
        script E w =
          (0, (snd (main E w))\<lparr>console := console (snd (main E w)) @
                 [Print [T ''Setup interrumpido por el usuario'']]\<rparr>))
   \<and> (sigint E \<noteq> Some 1 \<and> \<not> (fst (version_info E) = 3 \<and> 8 \<le> fst (snd (version_info E))) \<longrightarrow>
        script E w =
          (1, w\<lparr>console := console w @
                 [Print [T rule60], Print [T ''SETUP AUTOMATICO - CLASIFICADOR DE AUDIO''],
                  Print [T rule60], Step [T ''Verificando version de Python...''],
                  Error [T ''Python '', N (fst (version_info E)), T ''.'',
                         N (fst (snd (version_info E))),
                         T '' no es compatible. Requiere Python 3.8+'']]\<rparr>))
   \<and> (\<forall>e. fst (main E w) = Inl e \<and> e \<noteq> KeyboardInterrupt \<and> (\<forall>code. e \<noteq> SystemExit code) \<longrightarrow>
        script E w =
          (1, (snd (main E w))\<lparr>console := console (snd (main E w)) @
                 [Error [T ''Error inesperado: '', X e], Print [T ''Traceback'']]\<rparr>))"
proof (intro conjI impI allI)
  assume "fst (main E w) = Inr ()"
  then show "script E w = (0, snd (main E w))"
    by (cases "main E w") (simp add: script_def)
next
  assume "fst (main E w) = Inl KeyboardInterrupt"
  then show "script E w =
          (0, (snd (main E w))\<lparr>console := console (snd (main E w)) @
                 [Print [T ''Setup interrumpido por el usuario'']]\<rparr>)"
    by (cases "main E w") (simp add: script_def)
next
  assume a: "sigint E \<noteq> Some 1 \<and> \<not> (fst (version_info E) = 3 \<and> 8 \<le> fst (snd (version_info E)))"
  obtain major minor micro where v: "version_info E = (major, minor, micro)"
    by (cases "version_info E") auto
  have "main E w = (Inl (SystemExit 1),
      w\<lparr>console := console w @
                 [Print [T rule60], Print [T ''SETUP AUTOMATICO - CLASIFICADOR DE AUDIO''],
                  Print [T rule60], Step [T ''Verificando version de Python...''],
                  Error [T ''Python '', N major, T ''.'', N minor,
                         T '' no es compatible. Requiere Python 3.8+'']]\<rparr>)"
  proof -
    from a v have nv: "(major = 3 \<and> 8 \<le> minor) = False" and ns: "sigint E \<noteq> Some (Suc 0)"
      by auto
    from ns show ?thesis
      by (simp add: main_def check_python_version_def print_all_apply prog_simps v nv
          cong: ev_cong)
  qed
  then show "script E w =
          (1, w\<lparr>console := console w @
                 [Print [T rule60], Print [T ''SETUP AUTOMATICO - CLASIFICADOR DE AUDIO''],
                  Print [T rule60], Step [T ''Verificando version de Python...''],
                  Error [T ''Python '', N (fst (version_info E)), T ''.'',
                         N (fst (snd (version_info E))),
                         T '' no es compatible. Requiere Python 3.8+'']]\<rparr>)"
    using v by (simp add: script_def)
next
  fix e
  assume "fst (main E w) = Inl e \<and> e \<noteq> KeyboardInterrupt \<and> (\<forall>code. e \<noteq> SystemExit code)"
  then show "script E w =
          (1, (snd (main E w))\<lparr>console := console (snd (main E w)) @
                 [Error [T ''Error inesperado: '', X e], Print [T ''Traceback'']]\<rparr>)"
    by (cases "main E w"; cases e) (simp_all add: script_def)
qed



theorem script_exit_codes_witness:
  "fst (script (host None) empty_project) = 0
   \<and> fst (script interrupted_host empty_project) = 0
   \<and> project (snd (script interrupted_host empty_project)) = scaffold_with_placeholder
   \<and> fst (script old_python_host empty_project) = 1
   \<and> project (snd (script old_python_host empty_project)) = Dir []
   \<and> fst (script (host (Some training_without_models)) empty_project) = 1"
proof -
  have m1: "fst (main (host None) empty_project) = Inr ()"
    by (simp add: run_defs cong: ev_cong)
  have m2: "fst (main interrupted_host empty_project) = Inl KeyboardInterrupt"
    by (simp add: run_defs interrupted_host_def cong: ev_cong)
  have p2: "project (snd (main interrupted_host empty_project)) = scaffold_with_placeholder"
    by (simp add: run_defs interrupted_host_def scaffold_with_placeholder_def cong: ev_cong)
  have v3: "sigint old_python_host \<noteq> Some 1 \<and>
      \<not> (fst (version_info old_python_host) = 3 \<and> 8 \<le> fst (snd (version_info old_python_host)))"
    by (simp add: old_python_host_def host_def)
  have m4: "fst (main (host (Some training_without_models)) empty_project) = Inl FileNotFoundError"
    by (simp add: run_defs cong: ev_cong)
  from script_exit_codes[of "host None" empty_project] m1
  have "fst (script (host None) empty_project) = 0" by simp
  moreover from script_exit_codes[of interrupted_host empty_project] m2 p2
  have "fst (script interrupted_host empty_project) = 0"
    and "project (snd (script interrupted_host empty_project)) = scaffold_with_placeholder"
    by simp_all
  moreover from script_exit_codes[of old_python_host empty_project] v3
  have "fst (script old_python_host empty_project) = 1"
    and "project (snd (script old_python_host empty_project)) = Dir []"
    by (simp_all add: empty_project_def)
  moreover from script_exit_codes[of "host (Some training_without_models)" empty_project] m4
  have "fst (script (host (Some training_without_models)) empty_project) = 1" by simp
  ultimately show ?thesis by simp
qed

text \<open>
  C10. When \<^verbatim>\<open>test_web\<close> is a directory without subdirectories, the resolver writes the
  placeholder list. The result and everything printed are stated in full, for any
  training tree with such a \<^verbatim>\<open>test_web\<close>: no \<^verbatim>\<open>summary.json\<close> has any influence.
\<close>

theorem empty_test_web_skips_metadata:
  assumes "training_lookup E [''test_web''] = Some (Dir es)"
    and "subdir_names (AList.clearjunk es) = []"
    and "write_file (MODELS_DIR @ [''classes.json'']) (Json placeholder_classes) (project w) = Inr root'"
  shows "create_classes_file E w =
           (Inr True,
            w\<lparr>project := root',
              console := console w @
                [Step [T ''Creando archivo de clases...''],
                 Step [T ''Extrayendo clases desde datos de entrenamiento...''],
                 Success [T ''Clases encontradas en test_web: '', N 0],
                 Warning [T ''No se pudieron extraer clases automaticamente''],
                 Warning [T ''Por favor, edita manualmente models/classes.json''],
                 Success [T ''Archivo creado: '', Proj (MODELS_DIR @ [''classes.json''])],
                 Success [T ''Clases totales: '', N 3],
                 Print [T ''  '', N 1, T ''. '', V (JStr ''clase_ejemplo_1'')],
                 Print [T ''  '', N 2, T ''. '', V (JStr ''clase_ejemplo_2'')],
                 Print [T ''  '', N 3, T ''. '', V (JStr ''clase_ejemplo_3'')]]\<rparr>)
         \<and> lookup root' (MODELS_DIR @ [''classes.json''])
             = Some (File Writable (Json placeholder_classes))"
proof -
  let ?w = "w\<lparr>console := console w @ [Step [T ''Creando archivo de clases...'']]\<rparr>"
  have falsy: "\<not> py_truthy (JArr [])"
    by (simp add: py_truthy_def)
  have enc: "encodable (if py_truthy (JArr []) then JArr [] else placeholder_classes)"
    using falsy by (simp add: encodable_placeholder)
  have ex: "extract_classes_from_training E ?w = (Inr (JArr []),
      ?w\<lparr>console := console ?w @
         [Step [T ''Extrayendo clases desde datos de entrenamiento...''],
          Success [T ''Clases encontradas en test_web: '', N 0]]\<rparr>)"
    using extract_test_web[OF assms(1), of ?w] assms(2) by simp
  have wr: "write_file (MODELS_DIR @ [''classes.json''])
      (Json (if py_truthy (JArr []) then JArr [] else placeholder_classes))
      (project (?w\<lparr>console := console ?w @
         [Step [T ''Extrayendo clases desde datos de entrenamiento...''],
          Success [T ''Clases encontradas en test_web: '', N 0]]\<rparr>)) = Inr root'"
    using falsy assms(3) by simp
  have "create_classes_file E w = (Inr True,
            w\<lparr>project := root',
              console := console w @
                [Step [T ''Creando archivo de clases...''],
                 Step [T ''Extrayendo clases desde datos de entrenamiento...''],
                 Success [T ''Clases encontradas en test_web: '', N 0],
                 Warning [T ''No se pudieron extraer clases automaticamente''],
                 Warning [T ''Por favor, edita manualmente models/classes.json''],
                 Success [T ''Archivo creado: '', Proj (MODELS_DIR @ [''classes.json''])],
                 Success [T ''Clases totales: '', N 3],
                 Print [T ''  '', N 1, T ''. '', V (JStr ''clase_ejemplo_1'')],
                 Print [T ''  '', N 2, T ''. '', V (JStr ''clase_ejemplo_2'')],
                 Print [T ''  '', N 3, T ''. '', V (JStr ''clase_ejemplo_3'')]]\<rparr>)"
    using create_classes_file_result[OF ex refl enc wr placeholder_facts(1)[OF falsy] placeholder_facts(2)[OF falsy]]
      falsy by simp
  with write_file_lookup[OF assms(3)] show ?thesis by simp
qed

theorem empty_test_web_skips_metadata_witness:
  "training_lookup (host (Some training_with_empty_test_web)) [''test_web''] =
     Some (Dir [(''notes.txt'', File Writable (Text ''x''))])
   \<and> training_lookup (host (Some training_with_empty_test_web)) [''mfcc'', ''summary.json''] =
     Some summary_ab
   \<and> fst (create_classes_file (host (Some training_with_empty_test_web)) scaffold_world) = Inr True
   \<and> project (snd (create_classes_file (host (Some training_with_empty_test_web)) scaffold_world))
        = scaffold_with_placeholder"
proof -
  let ?es = "[(''notes.txt'', File Writable (Text ''x''))]"
  have h1: "training_lookup (host (Some training_with_empty_test_web)) [''test_web''] = Some (Dir ?es)"
    by (simp add: training_lookup_def host_def training_with_empty_test_web_def)
  have h2: "subdir_names (AList.clearjunk ?es) = []"
    by (simp add: subdir_names_def is_Dir_def)
  have h4: "training_lookup (host (Some training_with_empty_test_web)) [''mfcc'', ''summary.json''] =
     Some summary_ab"
    by (simp add: training_lookup_def host_def training_with_empty_test_web_def)
  from empty_test_web_skips_metadata[OF h1 h2 write_placeholder_scaffold] h1 h4 show ?thesis
    by simp
qed


end
